theory Spec2Isabelle
  imports Complex_Main
begin

section \<open>The Enrollment document (models/Enrollment.js)\<close>

text \<open>
  An ObjectId is represented by the string its \<open>toString()\<close> gives: 24 hexadecimal
  digits, the letters in lower case. The ids of enrollments, students and courses reach
  the code only through queries and document fields, which cast them, and are taken in
  that form. The \<open>lectureId\<close> of \<open>completeLecture\<close> is different: the method compares it
  as it was sent, and stores it cast (see \<open>castObjectId\<close> below). A \<open>Date\<close> is the number
  of milliseconds since the epoch.
  Every \<open>new Date()\<close> and \<open>Date.now()\<close> of the source is a reading of the clock; the
  functions below take each reading as an argument, in the order the source makes them.
\<close>

type_synonym oid = string
type_synonym time = nat

text \<open>
  The routes' \<open>isMongoId\<close> validator lets a string of 24 hexadecimal digits through, in
  either case. Stored under a path of type ObjectId the string is cast, and the ObjectId
  prints with its letters in lower case.
\<close>

definition is_hex_digit :: "char \<Rightarrow> bool" where
  "is_hex_digit c = (c \<in> set ''0123456789abcdefABCDEF'')"

definition isMongoId :: "string \<Rightarrow> bool" where
  "isMongoId str = (length str = 24 \<and> list_all is_hex_digit str)"

definition lower_hex :: "char \<Rightarrow> char" where
  "lower_hex c =
     (if c = CHR ''A'' then CHR ''a'' else if c = CHR ''B'' then CHR ''b''
      else if c = CHR ''C'' then CHR ''c'' else if c = CHR ''D'' then CHR ''d''
      else if c = CHR ''E'' then CHR ''e'' else if c = CHR ''F'' then CHR ''f'' else c)"

definition castObjectId :: "string \<Rightarrow> oid" where
  "castObjectId str = map lower_hex str"

datatype enrollment_status = Active | Completed | Cancelled | Expired

datatype payment_method = CreditCard | Paypal | Stripe | BankTransfer | Crypto

datatype payment_status = PaymentPending | PaymentCompleted | PaymentFailed | PaymentRefunded

datatype refund_status = RefundNone | RefundPending | RefundApproved | RefundRejected

record completed_lecture =
  lecture :: oid
  completedAt :: time
  timeSpent :: int

record certificate_info =
  issued :: bool
  issuedAt :: "time option"
  certificateId :: "string option"
  downloadUrl :: "string option"

record payment_info =
  amount :: rat
  currency :: string
  pay_method :: payment_method
  transactionId :: string
  pay_status :: payment_status
  paidAt :: time

text \<open>The number stored under \<open>rating.rating\<close> is the field \<open>rating_value\<close>.\<close>

record rating_info =
  given :: bool
  rating_value :: "int option"
  review :: "string option"
  reviewedAt :: "time option"

text \<open>The field \<open>eid\<close> is the document's \<open>_id\<close>.\<close>

record enrollment =
  eid :: oid
  student :: oid
  course :: oid
  instructor :: oid
  enrollmentDate :: time
  completionDate :: "time option"
  status :: enrollment_status
  progress :: int
  completedLectures :: "completed_lecture list"
  lastAccessed :: time
  totalTimeSpent :: int
  certificate :: certificate_info
  payment :: payment_info
  enrollment_notes :: "string option"
  rating :: rating_info
  accessExpiry :: "time option"
  isLifetime :: bool
  refundRequested :: bool
  refundReason :: "string option"
  refundStatus :: refund_status
  refundProcessedAt :: "time option"
  refundAmount :: "rat option"

text \<open>
  The Course model is not part of the sources at hand; a course carries the fields the
  enrollment routes read and write.
\<close>

record course_doc =
  cid :: oid
  course_status :: string
  course_instructor :: oid
  price :: rat
  course_currency :: string
  enrollmentCount :: int

subsection \<open>The document store\<close>

text \<open>
  The store holds the persisted documents of both collections. The engine is outside the
  sources: of its failures the model has the duplicate \<open>_id\<close> on insert and the schema
  validation of \<open>refundReason\<close> (see \<open>requestRefund\<close>); the \<open>createdAt\<close>/\<open>updatedAt\<close>
  stamps the engine keeps are left out.
\<close>

record store =
  enrollments :: "enrollment list"
  courses :: "course_doc list"

definition findById :: "store \<Rightarrow> oid \<Rightarrow> enrollment option" where
  "findById s i = find (\<lambda>e. eid e = i) (enrollments s)"

definition findOne :: "store \<Rightarrow> oid \<Rightarrow> oid \<Rightarrow> enrollment option" where
  "findOne s st c = find (\<lambda>e. student e = st \<and> course e = c) (enrollments s)"

definition Course_findById :: "store \<Rightarrow> oid \<Rightarrow> course_doc option" where
  "Course_findById s i = find (\<lambda>c. cid c = i) (courses s)"

text \<open>
  Writing back a loaded document replaces the stored document with the same \<open>_id\<close>.
  Inserting a new document fails (a duplicate-key error) when the \<open>_id\<close> is taken.
\<close>

definition update_doc :: "enrollment \<Rightarrow> store \<Rightarrow> store" where
  "update_doc e s =
     s\<lparr>enrollments := map (\<lambda>x. if eid x = eid e then e else x) (enrollments s)\<rparr>"

definition insert_doc :: "enrollment \<Rightarrow> store \<Rightarrow> store option" where
  "insert_doc e s =
     (case findById s (eid e) of
        None \<Rightarrow> Some (s\<lparr>enrollments := enrollments s @ [e]\<rparr>)
      | Some _ \<Rightarrow> None)"

definition Course_save :: "course_doc \<Rightarrow> store \<Rightarrow> store" where
  "Course_save c s =
     s\<lparr>courses := map (\<lambda>x. if cid x = cid c then c else x) (courses s)\<rparr>"

subsection \<open>The pre-save hook and save\<close>

definition pre_save :: "time \<Rightarrow> enrollment \<Rightarrow> enrollment" where
  "pre_save now e =
     (if progress e = 100 \<and> status e \<noteq> Completed
      then e\<lparr>status := Completed, completionDate := Some now\<rparr>
      else e)"

text \<open>
  \<open>save\<close> on a loaded document runs the hook and writes the result back;
  \<open>save_new\<close> is \<open>save\<close> on a document built by \<open>new Enrollment(...)\<close>.
\<close>

definition save :: "time \<Rightarrow> enrollment \<Rightarrow> store \<Rightarrow> enrollment \<times> store" where
  "save now e s = (let e' = pre_save now e in (e', update_doc e' s))"

definition save_new :: "time \<Rightarrow> enrollment \<Rightarrow> store \<Rightarrow> (enrollment \<times> store) option" where
  "save_new now e s =
     (let e' = pre_save now e
      in (case insert_doc e' s of None \<Rightarrow> None | Some s' \<Rightarrow> Some (e', s')))"

subsection \<open>Instance methods\<close>

text \<open>
  A method call ends by throwing (or rejecting) or by returning; \<open>thrown\<close> is the error,
  \<open>doc\<close> the document \<open>this\<close> as the call leaves it in memory, \<open>db\<close> the store.
  \<open>Error m\<close> is \<open>new Error(m)\<close>. \<open>ValidationError path m\<close> is the rejection of a save
  on the schema validator of \<open>path\<close> whose text is \<open>m\<close>.
\<close>

datatype error = Error string | ValidationError string string

record outcome =
  thrown :: "error option"
  doc :: enrollment
  db :: store

text \<open>\<open>Array.prototype.findIndex\<close>: the first index whose element satisfies \<open>P\<close>, or -1.\<close>

fun findIndex :: "('a \<Rightarrow> bool) \<Rightarrow> 'a list \<Rightarrow> int" where
  "findIndex P [] = - 1"
| "findIndex P (x # xs) =
     (if P x then 0 else (let r = findIndex P xs in if r = - 1 then - 1 else r + 1))"

definition updateProgress :: "enrollment \<Rightarrow> enrollment" where
  "updateProgress e =
     (if length (completedLectures e) > 0
      then e\<lparr>progress := min 100 (int (length (completedLectures e)) * 10)\<rparr>
      else e)"

text \<open>
  \<open>completeLecture lectureId timeSpent tPush tAccess tSave\<close>: \<open>tPush\<close> is the clock when
  the pushed entry takes its default \<open>completedAt\<close>, \<open>tAccess\<close> when \<open>lastAccessed\<close> is
  assigned, \<open>tSave\<close> when the pre-save hook runs. The search compares the print of each
  stored id with \<open>lectureId\<close> as it was sent; the pushed entry holds \<open>lectureId\<close> cast.
\<close>

definition completeLecture ::
  "string \<Rightarrow> int \<Rightarrow> time \<Rightarrow> time \<Rightarrow> time \<Rightarrow> enrollment \<Rightarrow> store \<Rightarrow> outcome" where
  "completeLecture lectureId ts tPush tAccess tSave e s =
     (let existingIndex = findIndex (\<lambda>cl. lecture cl = lectureId) (completedLectures e);
          e1 = (if existingIndex = - 1
                then e\<lparr>completedLectures := completedLectures e @
                        [\<lparr>lecture = castObjectId lectureId, completedAt = tPush,
                          timeSpent = ts\<rparr>]\<rparr>
                else e);
          e2 = updateProgress e1;
          e3 = e2\<lparr>lastAccessed := tAccess\<rparr>;
          (e4, s') = save tSave e3 s
      in \<lparr>thrown = None, doc = e4, db = s'\<rparr>)"

text \<open>The decimal numeral JavaScript prints for a non-negative integer.\<close>

definition digit_char :: "nat \<Rightarrow> char" where
  "digit_char d =
     (if d = 0 then CHR ''0'' else if d = 1 then CHR ''1'' else if d = 2 then CHR ''2''
      else if d = 3 then CHR ''3'' else if d = 4 then CHR ''4'' else if d = 5 then CHR ''5''
      else if d = 6 then CHR ''6'' else if d = 7 then CHR ''7'' else if d = 8 then CHR ''8''
      else CHR ''9'')"

fun show_nat :: "nat \<Rightarrow> string" where
  "show_nat n = (if n < 10 then [digit_char n] else show_nat (n div 10) @ [digit_char (n mod 10)])"

declare show_nat.simps [simp del]

definition make_certificateId :: "oid \<Rightarrow> time \<Rightarrow> string" where
  "make_certificateId i t = ''CERT-'' @ i @ ''-'' @ show_nat t"

definition make_downloadUrl :: "string \<Rightarrow> string" where
  "make_downloadUrl c = ''/certificates/'' @ c"

definition issueCertificate :: "time \<Rightarrow> time \<Rightarrow> time \<Rightarrow> enrollment \<Rightarrow> store \<Rightarrow> outcome" where
  "issueCertificate tIssued tId tSave e s =
     (if progress e = 100 \<and> \<not> issued (certificate e)
      then (let c = make_certificateId (eid e) tId;
                e1 = e\<lparr>certificate := (certificate e)\<lparr>issued := True, issuedAt := Some tIssued,
                        certificateId := Some c, downloadUrl := Some (make_downloadUrl c)\<rparr>\<rparr>;
                (e2, s') = save tSave e1 s
            in \<lparr>thrown = None, doc = e2, db = s'\<rparr>)
      else \<lparr>thrown = Some (Error ''Cannot issue certificate: course not completed or already issued''),
            doc = e, db = s\<rparr>)"

text \<open>
  \<open>save()\<close> validates the document against the schema before the hook runs and rejects
  with a validation error, writing nothing, when a validator fails. A loaded document
  passed validation when it was written, so a save can fail only on a path the caller
  has just assigned. \<open>requestRefund\<close> assigns its argument to \<open>refundReason\<close>, whose
  schema entry is \<open>maxlength: [500, 'Refund reason cannot exceed 500 characters']\<close>;
  the other modelled operations assign values that are computed (progress, certificate)
  or have passed the route's validators (rating, review). A string's length is its number
  of characters.
\<close>

definition refundReason_error :: "enrollment \<Rightarrow> error option" where
  "refundReason_error e =
     (case refundReason e of
        None \<Rightarrow> None
      | Some reason \<Rightarrow>
          if 500 < length reason
          then Some (ValidationError ''refundReason''
                       ''Refund reason cannot exceed 500 characters'')
          else None)"

definition requestRefund :: "string \<Rightarrow> time \<Rightarrow> enrollment \<Rightarrow> store \<Rightarrow> outcome" where
  "requestRefund reason tSave e s =
     (if refundRequested e
      then \<lparr>thrown = Some (Error ''Refund already requested''), doc = e, db = s\<rparr>
      else (let e1 = e\<lparr>refundRequested := True, refundReason := Some reason,
                        refundStatus := RefundPending\<rparr>
            in (case refundReason_error e1 of
                  Some err \<Rightarrow> \<lparr>thrown = Some err, doc = e1, db = s\<rparr>
                | None \<Rightarrow>
                    (let (e2, s') = save tSave e1 s
                     in \<lparr>thrown = None, doc = e2, db = s'\<rparr>))))"

subsection \<open>The virtual isExpired\<close>



section \<open>The enrollment routes (routes/enrollments.js)\<close>

text \<open>
  Each handler is modelled from the point where \<open>auth\<close> has resolved the caller
  (\<open>userId\<close>) and the request validators have passed (for the progress route:
  \<open>isMongoId lectureId\<close>); the refund-status route, whose accepted inputs matter below,
  carries its validators. A handler returns the response and the store it leaves.
\<close>

record response =
  code :: nat
  success :: bool
  message :: string
  data :: "enrollment option"

definition reply :: "nat \<Rightarrow> bool \<Rightarrow> string \<Rightarrow> enrollment option \<Rightarrow> response" where
  "reply c ok m d = \<lparr>code = c, success = ok, message = m, data = d\<rparr>"

text \<open>\<open>error.message || fallback\<close>: the empty string is falsy.\<close>

definition error_message :: "error \<Rightarrow> string" where
  "error_message err =
     (case err of
        Error m \<Rightarrow> m
      | ValidationError path m \<Rightarrow> ''Enrollment validation failed: '' @ path @ '': '' @ m)"

definition message_or :: "error \<Rightarrow> string \<Rightarrow> string" where
  "message_or err fallback = (if error_message err = [] then fallback else error_message err)"

text \<open>The document \<open>new Enrollment({...})\<close> builds: the given fields and the schema defaults.\<close>

definition new_Enrollment ::
  "oid \<Rightarrow> oid \<Rightarrow> oid \<Rightarrow> oid \<Rightarrow> payment_info \<Rightarrow> time \<Rightarrow> time \<Rightarrow> enrollment" where
  "new_Enrollment i st c ins pay tEnrolled tAccessed =
     \<lparr>eid = i, student = st, course = c, instructor = ins,
      enrollmentDate = tEnrolled, completionDate = None, status = Active, progress = 0,
      completedLectures = [], lastAccessed = tAccessed, totalTimeSpent = 0,
      certificate = \<lparr>issued = False, issuedAt = None, certificateId = None, downloadUrl = None\<rparr>,
      payment = pay, enrollment_notes = None,
      rating = \<lparr>given = False, rating_value = None, review = None, reviewedAt = None\<rparr>,
      accessExpiry = None, isLifetime = True, refundRequested = False, refundReason = None,
      refundStatus = RefundNone, refundProcessedAt = None, refundAmount = None\<rparr>"

text \<open>
  POST /api/enrollments. \<open>newId\<close> is the \<open>_id\<close> the new document is given; \<open>tPaid\<close>,
  \<open>tEnrolled\<close>, \<open>tAccessed\<close> and \<open>tSave\<close> are the clock readings for \<open>paidAt\<close>, the
  defaults of \<open>enrollmentDate\<close> and \<open>lastAccessed\<close>, and the pre-save hook.
\<close>

definition post_enrollments ::
  "oid \<Rightarrow> oid \<Rightarrow> payment_method \<Rightarrow> string \<Rightarrow> oid \<Rightarrow> time \<Rightarrow> time \<Rightarrow> time \<Rightarrow> time \<Rightarrow>
   store \<Rightarrow> response \<times> store" where
  "post_enrollments userId courseId paymentMethod txn newId tPaid tEnrolled tAccessed tSave s =
     (case Course_findById s courseId of
        None \<Rightarrow> (reply 404 False ''Course not found'' None, s)
      | Some c \<Rightarrow>
          if course_status c \<noteq> ''published''
          then (reply 400 False ''Course is not available for enrollment'' None, s)
          else (case findOne s userId courseId of
                  Some _ \<Rightarrow> (reply 400 False ''You are already enrolled in this course'' None, s)
                | None \<Rightarrow>
                    (let e = new_Enrollment newId userId courseId (course_instructor c)
                               \<lparr>amount = price c, currency = course_currency c,
                                pay_method = paymentMethod, transactionId = txn,
                                pay_status = PaymentCompleted, paidAt = tPaid\<rparr>
                               tEnrolled tAccessed
                     in (case save_new tSave e s of
                           None \<Rightarrow> (reply 500 False ''Server error while enrolling in course'' None, s)
                         | Some (e', s1) \<Rightarrow>
                             (let c' = c\<lparr>enrollmentCount := enrollmentCount c + 1\<rparr>;
                                  s2 = Course_save c' s1
                              in (reply 201 True ''Successfully enrolled in course'' (Some e'), s2))))))"

text \<open>PUT /api/enrollments/:id/progress; an absent \<open>timeSpent\<close> defaults to 0.\<close>

definition put_progress ::
  "oid \<Rightarrow> oid \<Rightarrow> string \<Rightarrow> int option \<Rightarrow> time \<Rightarrow> time \<Rightarrow> time \<Rightarrow> store \<Rightarrow> response \<times> store" where
  "put_progress userId i lectureId timeSpentOpt tPush tAccess tSave s =
     (case findById s i of
        None \<Rightarrow> (reply 404 False ''Enrollment not found'' None, s)
      | Some e \<Rightarrow>
          if student e \<noteq> userId
          then (reply 403 False ''Not authorized to update this enrollment'' None, s)
          else (let ts = (case timeSpentOpt of None \<Rightarrow> 0 | Some t \<Rightarrow> t);
                    r = completeLecture lectureId ts tPush tAccess tSave e s
                in (case thrown r of
                      Some err \<Rightarrow> (reply 500 False ''Server error while updating progress'' None, db r)
                    | None \<Rightarrow> (reply 200 True ''Progress updated successfully'' (Some (doc r)), db r))))"

text \<open>
  POST /api/enrollments/:id/review. After the save the handler calls \<open>addReview\<close> on
  \<open>enrollment.course\<close>; the Course model is not in the sources, so whether that call
  returns (\<open>courseAddReview = True\<close>) or throws is an argument.
\<close>

definition post_review ::
  "oid \<Rightarrow> oid \<Rightarrow> int \<Rightarrow> string option \<Rightarrow> time \<Rightarrow> time \<Rightarrow> bool \<Rightarrow> store \<Rightarrow> response \<times> store" where
  "post_review userId i r rv tReviewed tSave courseAddReview s =
     (case findById s i of
        None \<Rightarrow> (reply 404 False ''Enrollment not found'' None, s)
      | Some e \<Rightarrow>
          if student e \<noteq> userId
          then (reply 403 False ''Not authorized to review this course'' None, s)
          else if given (rating e)
          then (reply 400 False ''You have already reviewed this course'' None, s)
          else (let e1 = e\<lparr>rating := (rating e)\<lparr>given := True, rating_value := Some r,
                              review := rv, reviewedAt := Some tReviewed\<rparr>\<rparr>;
                    (e2, s') = save tSave e1 s
                in if courseAddReview
                   then (reply 200 True ''Review added successfully'' (Some e2), s')
                   else (reply 500 False ''Server error while adding review'' None, s')))"

text \<open>POST /api/enrollments/:id/certificate.\<close>

definition post_certificate ::
  "oid \<Rightarrow> oid \<Rightarrow> time \<Rightarrow> time \<Rightarrow> time \<Rightarrow> store \<Rightarrow> response \<times> store" where
  "post_certificate userId i tIssued tId tSave s =
     (case findById s i of
        None \<Rightarrow> (reply 404 False ''Enrollment not found'' None, s)
      | Some e \<Rightarrow>
          if student e \<noteq> userId
          then (reply 403 False ''Not authorized to access this certificate'' None, s)
          else (let r = issueCertificate tIssued tId tSave e s
                in (case thrown r of
                      Some err \<Rightarrow>
                        (reply 500 False (message_or err ''Server error while issuing certificate'') None,
                         db r)
                    | None \<Rightarrow> (reply 200 True ''Certificate issued successfully'' (Some (doc r)), db r))))"

text \<open>POST /api/enrollments/:id/refund.\<close>

definition post_refund :: "oid \<Rightarrow> oid \<Rightarrow> string \<Rightarrow> time \<Rightarrow> store \<Rightarrow> response \<times> store" where
  "post_refund userId i reason tSave s =
     (case findById s i of
        None \<Rightarrow> (reply 404 False ''Enrollment not found'' None, s)
      | Some e \<Rightarrow>
          if student e \<noteq> userId
          then (reply 403 False ''Not authorized to request refund for this enrollment'' None, s)
          else (let r = requestRefund reason tSave e s
                in (case thrown r of
                      Some err \<Rightarrow>
                        (reply 500 False (message_or err ''Server error while requesting refund'') None,
                         db r)
                    | None \<Rightarrow>
                        (reply 200 True ''Refund request submitted successfully'' (Some (doc r)), db r))))"

text \<open>
  PUT /api/enrollments/:id/refund-status (admin). The validators accept a
  \<open>refundStatus\<close> among pending, approved and rejected and an optional
  \<open>refundAmount\<close> that reads as a number not below 0. \<open>isFloat\<close> checks the value's
  text and converts nothing, so the handler sees the body's value as it came: a JSON
  number, or a JSON string that reads as a number. \<open>AsNumber a\<close> is the number \<open>a\<close>;
  \<open>AsString a\<close> is an accepted string, which is not empty, reading as \<open>a\<close>. The handler
  stores the amount when the value is truthy: a number other than 0, or any accepted
  string; stored under a path of type Number, either is cast to the number it reads as.
\<close>

datatype body_number = AsNumber rat | AsString rat

definition number_of :: "body_number \<Rightarrow> rat" where
  "number_of v = (case v of AsNumber a \<Rightarrow> a | AsString a \<Rightarrow> a)"

definition truthy :: "body_number \<Rightarrow> bool" where
  "truthy v = (case v of AsNumber a \<Rightarrow> a \<noteq> 0 | AsString a \<Rightarrow> True)"

definition accepted_refundStatus :: "refund_status list" where
  "accepted_refundStatus = [RefundPending, RefundApproved, RefundRejected]"

definition refund_status_valid :: "refund_status \<Rightarrow> body_number option \<Rightarrow> bool" where
  "refund_status_valid st amt =
     (st \<in> set accepted_refundStatus \<and>
      (case amt of None \<Rightarrow> True | Some v \<Rightarrow> 0 \<le> number_of v))"

definition put_refund_status ::
  "oid \<Rightarrow> refund_status \<Rightarrow> body_number option \<Rightarrow> time \<Rightarrow> time \<Rightarrow> store \<Rightarrow>
   response \<times> store" where
  "put_refund_status i st amt tProcessed tSave s =
     (if \<not> refund_status_valid st amt
      then (reply 400 False ''Validation failed'' None, s)
      else (case findById s i of
              None \<Rightarrow> (reply 404 False ''Enrollment not found'' None, s)
            | Some e \<Rightarrow>
                (let e1 = e\<lparr>refundStatus := st\<rparr>;
                     e2 = (case amt of
                             None \<Rightarrow> e1
                           | Some v \<Rightarrow>
                               if truthy v then e1\<lparr>refundAmount := Some (number_of v)\<rparr>
                               else e1);
                     e3 = e2\<lparr>refundProcessedAt := Some tProcessed\<rparr>;
                     (e4, s') = save tSave e3 s
                 in (reply 200 True ''Refund status updated successfully'' (Some e4), s'))))"

subsection \<open>Requests and runs\<close>

text \<open>The requests that change the store, and the handler each one reaches.\<close>

datatype request =
    PostEnrollments oid oid payment_method string oid time time time time
  | PutProgress oid oid string "int option" time time time
  | PostReview oid oid int "string option" time time bool
  | PostCertificate oid oid time time time
  | PostRefund oid oid string time
  | PutRefundStatus oid refund_status "body_number option" time time

fun handle :: "request \<Rightarrow> store \<Rightarrow> response \<times> store" where
  "handle (PostEnrollments u c pm txn n t1 t2 t3 t4) s = post_enrollments u c pm txn n t1 t2 t3 t4 s"
| "handle (PutProgress u i l ts t1 t2 t3) s = put_progress u i l ts t1 t2 t3 s"
| "handle (PostReview u i r rv t1 t2 ok) s = post_review u i r rv t1 t2 ok s"
| "handle (PostCertificate u i t1 t2 t3) s = post_certificate u i t1 t2 t3 s"
| "handle (PostRefund u i reason t) s = post_refund u i reason t s"
| "handle (PutRefundStatus i st amt t1 t2) s = put_refund_status i st amt t1 t2 s"

fun run :: "request list \<Rightarrow> store \<Rightarrow> store" where
  "run [] s = s"
| "run (r # rs) s = run rs (snd (handle r s))"

subsection \<open>One step in the life of a stored document\<close>

text \<open>
  \<open>doc_step e d\<close>: some handler, having loaded \<open>e\<close>, writes \<open>d\<close> back in its place.
  These are the five ways the routes change an existing enrollment.
\<close>

inductive doc_step :: "enrollment \<Rightarrow> enrollment \<Rightarrow> bool" where
  step_completeLecture:
    "doc_step e (doc (completeLecture l ts tPush tAccess tSave e s))"
| step_issueCertificate:
    "thrown (issueCertificate tIssued tId tSave e s) = None \<Longrightarrow>
     doc_step e (doc (issueCertificate tIssued tId tSave e s))"
| step_requestRefund:
    "thrown (requestRefund reason tSave e s) = None \<Longrightarrow>
     doc_step e (doc (requestRefund reason tSave e s))"
| step_review:
    "\<not> given (rating e) \<Longrightarrow>
     doc_step e (pre_save tSave (e\<lparr>rating := (rating e)\<lparr>given := True, rating_value := Some r,
                   review := rv, reviewedAt := Some tReviewed\<rparr>\<rparr>))"
| step_refund_status:
    "refund_status_valid st amt \<Longrightarrow>
     doc_step e (pre_save tSave
       ((case amt of None \<Rightarrow> e\<lparr>refundStatus := st\<rparr>
         | Some v \<Rightarrow> if truthy v then e\<lparr>refundStatus := st, refundAmount := Some (number_of v)\<rparr>
                     else e\<lparr>refundStatus := st\<rparr>)\<lparr>refundProcessedAt := Some tProcessed\<rparr>))"

subsection \<open>Consistency of the completion fields\<close>

text \<open>
  A document is consistent when its progress is the value \<open>updateProgress\<close> computes,
  its status is completed exactly at progress 100, and it carries a completion date
  exactly at progress 100.
\<close>

definition completion_consistent :: "enrollment \<Rightarrow> bool" where
  "completion_consistent e =
     (progress e = min 100 (int (length (completedLectures e)) * 10)
      \<and> ((status e = Completed) = (progress e = 100))
      \<and> ((completionDate e = None) = (progress e \<noteq> 100)))"

text \<open>The progress rule on its own: progress is the capped multiple of the entries held.\<close>

definition progress_rule :: "enrollment \<Rightarrow> bool" where
  "progress_rule e = (progress e = min 100 (int (length (completedLectures e)) * 10))"

subsection \<open>Sample data\<close>

definition sample_payment :: payment_info where
  "sample_payment = \<lparr>amount = 4999 / 100, currency = ''USD'', pay_method = CreditCard,
     transactionId = ''txn-1'', pay_status = PaymentCompleted, paidAt = 1000\<rparr>"

definition sample_enrollment :: enrollment where
  "sample_enrollment = new_Enrollment ''650000000000000000000e01'' ''650000000000000000000a01''
     ''650000000000000000000c01'' ''650000000000000000000b01'' sample_payment 1000 1000"

definition sample_course :: course_doc where
  "sample_course = \<lparr>cid = ''650000000000000000000c01'', course_status = ''published'',
     course_instructor = ''650000000000000000000b01'',
     price = 4999 / 100, course_currency = ''USD'', enrollmentCount = 0\<rparr>"

definition sample_store :: store where
  "sample_store = \<lparr>enrollments = [sample_enrollment], courses = [sample_course]\<rparr>"

text \<open>The sample enrollment once completed, and with nine of ten lectures done.\<close>

definition completed_enrollment :: enrollment where
  "completed_enrollment = sample_enrollment\<lparr>progress := 100, status := Completed,
     completionDate := Some 9000\<rparr>"

definition sample_lectures :: "completed_lecture list" where
  "sample_lectures =
     map (\<lambda>k. \<lparr>lecture = ''64b7f0c2a1d3e4f5a6b7c80'' @ show_nat k, completedAt = 2000 + k,
               timeSpent = 60\<rparr>) [1, 2, 3, 4, 5, 6, 7, 8, 9]"

definition nearly_done_enrollment :: enrollment where
  "nearly_done_enrollment =
     sample_enrollment\<lparr>completedLectures := sample_lectures, progress := 90, lastAccessed := 2009\<rparr>"

text \<open>A catalogue with a published and a draft course, the sample student enrolled in both.\<close>

definition draft_course :: course_doc where
  "draft_course = sample_course\<lparr>cid := ''650000000000000000000c02'', course_status := ''draft''\<rparr>"

definition catalog_store :: store where
  "catalog_store =
     \<lparr>enrollments = [sample_enrollment,
                     sample_enrollment\<lparr>eid := ''650000000000000000000e03'',
                                       course := ''650000000000000000000c02''\<rparr>],
      courses = [sample_course, draft_course]\<rparr>"

text \<open>The completed enrollment with its certificate issued, reviewed, and a refund requested.\<close>

definition settled_enrollment :: enrollment where
  "settled_enrollment =
     completed_enrollment\<lparr>
       certificate := \<lparr>issued = True, issuedAt = Some 9100,
                       certificateId = Some ''CERT-650000000000000000000e01-9101'',
                       downloadUrl = Some ''/certificates/CERT-650000000000000000000e01-9101''\<rparr>,
       rating := \<lparr>given = True, rating_value = Some 5, review = Some ''Great course'',
                  reviewedAt = Some 9200\<rparr>,
       refundRequested := True, refundReason := Some ''not satisfied with pacing'',
       refundStatus := RefundPending\<rparr>"

definition settled_store :: store where
  "settled_store = \<lparr>enrollments = [settled_enrollment], courses = [sample_course]\<rparr>"

section \<open>Properties\<close>

subsection \<open>Array search\<close>

lemma findIndex_ge: "- 1 \<le> findIndex P xs"
  by (induction xs) (auto simp: Let_def)

lemma findIndex_none: "findIndex P xs = - 1 \<longleftrightarrow> (\<forall>x \<in> set xs. \<not> P x)"
proof (induction xs)
  case Nil
  show ?case by simp
next
  case (Cons x xs)
  have "findIndex P xs + 1 \<noteq> - 1"
    using findIndex_ge [of P xs] by arith
  with Cons show ?case by (auto simp: Let_def)
qed

subsection \<open>Decimal numerals and certificate identifiers\<close>

lemma digit_char_inj: "d < 10 \<Longrightarrow> d' < 10 \<Longrightarrow> digit_char d = digit_char d' \<Longrightarrow> d = d'"
  by (simp add: digit_char_def split: if_splits; arith)

lemma digit_char_not_dash: "digit_char d \<noteq> CHR ''-''"
  by (simp add: digit_char_def)

lemma show_nat_nonempty: "show_nat n \<noteq> []"
  by (subst show_nat.simps) simp

lemma show_nat_no_dash: "CHR ''-'' \<notin> set (show_nat n)"
proof (induction n rule: show_nat.induct)
  case (1 n)
  show ?case
  proof (cases "n < 10")
    case True
    then show ?thesis
      using digit_char_not_dash [of n] by (subst show_nat.simps) auto
  next
    case False
    have "digit_char (n mod 10) \<noteq> CHR ''-''" by (rule digit_char_not_dash)
    with False "1.IH" show ?thesis
      by (subst show_nat.simps) auto
  qed
qed

lemma show_nat_inj: "show_nat n = show_nat m \<Longrightarrow> n = m"
proof (induction n arbitrary: m rule: show_nat.induct)
  case (1 n)
  show ?case
  proof (cases "n < 10")
    case n: True
    show ?thesis
    proof (cases "m < 10")
      case True
      with n "1.prems" show ?thesis
        by (simp add: show_nat.simps [of n] show_nat.simps [of m] digit_char_inj)
    next
      case False
      with n "1.prems" show ?thesis
        by (simp add: show_nat.simps [of n] show_nat.simps [of m] show_nat_nonempty [THEN not_sym])
    qed
  next
    case n: False
    show ?thesis
    proof (cases "m < 10")
      case True
      with n "1.prems" show ?thesis
        by (simp add: show_nat.simps [of n] show_nat.simps [of m] show_nat_nonempty)
    next
      case False
      with n "1.prems" have init: "show_nat (n div 10) = show_nat (m div 10)"
        and lst: "digit_char (n mod 10) = digit_char (m mod 10)"
        by (simp_all add: show_nat.simps [of n] show_nat.simps [of m])
      from "1.IH" [OF n init] have "n div 10 = m div 10" .
      moreover from lst have "n mod 10 = m mod 10"
        by (intro digit_char_inj) simp_all
      ultimately show ?thesis
        by (metis div_mult_mod_eq)
    qed
  qed
qed

lemma split_at_last:
  assumes eq: "xs @ x # ys = xs' @ x # ys'" and "x \<notin> set ys" and "x \<notin> set ys'"
  shows "xs = xs' \<and> ys = ys'"
proof -
  have tw: "takeWhile (\<lambda>c. c \<noteq> x) (rev zs @ x # ws) = rev zs" if "x \<notin> set zs" for zs ws
    using that by (auto simp: takeWhile_tail)
  from eq have "rev (xs @ x # ys) = rev (xs' @ x # ys')" by simp
  then have r: "rev ys @ x # rev xs = rev ys' @ x # rev xs'" by simp
  have "rev ys = takeWhile (\<lambda>c. c \<noteq> x) (rev ys @ x # rev xs)"
    by (rule tw [symmetric]) (rule assms(2))
  also have "\<dots> = takeWhile (\<lambda>c. c \<noteq> x) (rev ys' @ x # rev xs')"
    by (simp only: r)
  also have "\<dots> = rev ys'"
    by (rule tw) (rule assms(3))
  finally have "ys = ys'" by simp
  with eq show ?thesis by simp
qed

lemma make_certificateId_inj:
  "make_certificateId i t = make_certificateId i' t' \<Longrightarrow> i = i' \<and> t = t'"
proof -
  assume "make_certificateId i t = make_certificateId i' t'"
  then have "i @ CHR ''-'' # show_nat t = i' @ CHR ''-'' # show_nat t'"
    by (simp add: make_certificateId_def)
  then have "i = i' \<and> show_nat t = show_nat t'"
    by (rule split_at_last) (rule show_nat_no_dash)+
  then show ?thesis by (auto dest: show_nat_inj)
qed

subsection \<open>What the methods return\<close>

lemma pre_save_keeps [simp]:
  "progress (pre_save t e) = progress e"
  "completedLectures (pre_save t e) = completedLectures e"
  "certificate (pre_save t e) = certificate e"
  "rating (pre_save t e) = rating e"
  "refundRequested (pre_save t e) = refundRequested e"
  "refundReason (pre_save t e) = refundReason e"
  "refundStatus (pre_save t e) = refundStatus e"
  "refundAmount (pre_save t e) = refundAmount e"
  "refundProcessedAt (pre_save t e) = refundProcessedAt e"
  "eid (pre_save t e) = eid e"
  "student (pre_save t e) = student e"
  "course (pre_save t e) = course e"
  "instructor (pre_save t e) = instructor e"
  "payment (pre_save t e) = payment e"
  "lastAccessed (pre_save t e) = lastAccessed e"
  by (simp_all add: pre_save_def)

lemma fst_save [simp]: "fst (save t e s) = pre_save t e"
  by (simp add: save_def Let_def)

lemma snd_save [simp]: "snd (save t e s) = update_doc (pre_save t e) s"
  by (simp add: save_def Let_def)

lemma updateProgress_keeps [simp]:
  "completedLectures (updateProgress e) = completedLectures e"
  "eid (updateProgress e) = eid e"
  "status (updateProgress e) = status e"
  "completionDate (updateProgress e) = completionDate e"
  "certificate (updateProgress e) = certificate e"
  "rating (updateProgress e) = rating e"
  "refundRequested (updateProgress e) = refundRequested e"
  by (simp_all add: updateProgress_def)

lemma doc_completeLecture:
  "doc (completeLecture l ts t1 t2 t3 e s) =
     pre_save t3 ((updateProgress
       (if l \<in> lecture ` set (completedLectures e) then e
        else e\<lparr>completedLectures := completedLectures e @
               [\<lparr>lecture = castObjectId l, completedAt = t1, timeSpent = ts\<rparr>]\<rparr>))\<lparr>lastAccessed := t2\<rparr>)"
  by (auto simp: completeLecture_def Let_def findIndex_none case_prod_beta)

lemma db_completeLecture:
  "db (completeLecture l ts t1 t2 t3 e s) = update_doc (doc (completeLecture l ts t1 t2 t3 e s)) s"
  by (simp add: completeLecture_def Let_def case_prod_beta)

lemma thrown_completeLecture [simp]: "thrown (completeLecture l ts t1 t2 t3 e s) = None"
  by (simp add: completeLecture_def Let_def case_prod_beta)

lemma thrown_issueCertificate:
  "thrown (issueCertificate t1 t2 t3 e s) = None \<longleftrightarrow> progress e = 100 \<and> \<not> issued (certificate e)"
  by (simp add: issueCertificate_def Let_def case_prod_beta)

lemma doc_issueCertificate:
  "doc (issueCertificate t1 t2 t3 e s) =
     (if progress e = 100 \<and> \<not> issued (certificate e)
      then pre_save t3 (e\<lparr>certificate := (certificate e)\<lparr>issued := True, issuedAt := Some t1,
             certificateId := Some (make_certificateId (eid e) t2),
             downloadUrl := Some (make_downloadUrl (make_certificateId (eid e) t2))\<rparr>\<rparr>)
      else e)"
  by (simp add: issueCertificate_def Let_def case_prod_beta)

lemma db_issueCertificate:
  "db (issueCertificate t1 t2 t3 e s) =
     (if progress e = 100 \<and> \<not> issued (certificate e)
      then update_doc (doc (issueCertificate t1 t2 t3 e s)) s else s)"
  by (simp add: issueCertificate_def Let_def case_prod_beta)

lemma thrown_requestRefund:
  "thrown (requestRefund reason t e s) = None \<longleftrightarrow> \<not> refundRequested e \<and> length reason \<le> 500"
  by (simp add: requestRefund_def refundReason_error_def Let_def case_prod_beta)

lemma doc_requestRefund:
  "doc (requestRefund reason t e s) =
     (if refundRequested e then e
      else if 500 < length reason
      then e\<lparr>refundRequested := True, refundReason := Some reason, refundStatus := RefundPending\<rparr>
      else pre_save t (e\<lparr>refundRequested := True, refundReason := Some reason,
                         refundStatus := RefundPending\<rparr>))"
  by (simp add: requestRefund_def refundReason_error_def Let_def case_prod_beta)

lemma db_requestRefund:
  "db (requestRefund reason t e s) =
     (if refundRequested e \<or> 500 < length reason then s
      else update_doc (doc (requestRefund reason t e s)) s)"
  by (simp add: requestRefund_def refundReason_error_def Let_def case_prod_beta)

lemma doc_step_eid: "doc_step e d \<Longrightarrow> eid d = eid e"
  by (induction rule: doc_step.induct)
     (auto simp: doc_completeLecture doc_issueCertificate doc_requestRefund split: option.splits)

lemma findById_eid: "findById s i = Some e \<Longrightarrow> eid e = i"
  by (auto simp: findById_def find_Some_iff)

lemma findById_mem: "findById s i = Some e \<Longrightarrow> e \<in> set (enrollments s)"
  by (auto simp: findById_def find_Some_iff)

lemma find_map_same:
  assumes "\<And>x. P (f x) = P x"
  shows "find P (map f xs) = map_option f (find P xs)"
  using assms by (induction xs) auto

lemma findById_update_doc:
  "findById (update_doc d s) i =
     (if eid d = i then (case findById s i of None \<Rightarrow> None | Some _ \<Rightarrow> Some d) else findById s i)"
proof -
  let ?f = "\<lambda>x. if eid x = eid d then d else x"
  have "find (\<lambda>e. eid e = i) (map ?f (enrollments s)) = map_option ?f (find (\<lambda>e. eid e = i) (enrollments s))"
    by (rule find_map_same) simp
  then have m: "findById (update_doc d s) i = map_option ?f (findById s i)"
    by (simp add: findById_def update_doc_def)
  show ?thesis
  proof (cases "findById s i")
    case None
    with m show ?thesis by simp
  next
    case (Some x)
    then have "eid x = i" by (rule findById_eid)
    with m Some show ?thesis by auto
  qed
qed

lemma new_Enrollment_pre_save [simp]:
  "pre_save t (new_Enrollment i st c ins pay t1 t2) = new_Enrollment i st c ins pay t1 t2"
  by (simp add: pre_save_def new_Enrollment_def)

lemma eid_new_Enrollment [simp]: "eid (new_Enrollment i st c ins pay t1 t2) = i"
  by (simp add: new_Enrollment_def)

lemma enrollments_Course_save [simp]: "enrollments (Course_save c s) = enrollments s"
  by (simp add: Course_save_def)

subsection \<open>What a request does to the stored documents\<close>

lemma handle_effect:
  "enrollments (snd (handle q s)) = enrollments s
   \<or> (\<exists>e d. findById s (eid e) = Some e \<and> doc_step e d \<and>
         enrollments (snd (handle q s)) = enrollments (update_doc d s))
   \<or> (\<exists>st c ins pay t1 t2 i. findById s i = None \<and>
         enrollments (snd (handle q s)) = enrollments s @ [new_Enrollment i st c ins pay t1 t2])"
proof (cases q)
  case (PostEnrollments u c pm txn n t1 t2 t3 t4)
  show ?thesis
  proof (cases "\<exists>cd. Course_findById s c = Some cd \<and> course_status cd = ''published'' \<and>
                  findOne s u c = None \<and> findById s n = None")
    case True
    then obtain cd where cd: "Course_findById s c = Some cd" "course_status cd = ''published''"
      "findOne s u c = None" "findById s n = None" by blast
    then have "enrollments (snd (handle q s)) = enrollments s @
        [new_Enrollment n u c (course_instructor cd)
           \<lparr>amount = price cd, currency = course_currency cd, pay_method = pm,
            transactionId = txn, pay_status = PaymentCompleted, paidAt = t1\<rparr> t2 t3]"
      by (simp add: PostEnrollments post_enrollments_def save_new_def insert_doc_def Let_def)
    with cd(4) show ?thesis by blast
  next
    case False
    then have "enrollments (snd (handle q s)) = enrollments s"
      by (auto simp: PostEnrollments post_enrollments_def save_new_def insert_doc_def Let_def
          split: option.splits)
    then show ?thesis by simp
  qed
next
  case (PutProgress u i l ts t1 t2 t3)
  show ?thesis
  proof (cases "findById s i")
    case None
    then show ?thesis by (simp add: PutProgress put_progress_def)
  next
    case (Some e)
    then have f: "findById s (eid e) = Some e" by (simp add: findById_eid)
    show ?thesis
    proof (cases "student e = u")
      case True
      let ?d = "doc (completeLecture l (case ts of None \<Rightarrow> 0 | Some t \<Rightarrow> t) t1 t2 t3 e s)"
      have "doc_step e ?d" by (rule step_completeLecture)
      moreover have "snd (handle q s) = update_doc ?d s"
        by (simp add: PutProgress put_progress_def Some True Let_def db_completeLecture)
      ultimately have "findById s (eid e) = Some e \<and> doc_step e ?d \<and>
          enrollments (snd (handle q s)) = enrollments (update_doc ?d s)"
        using f by simp
      then show ?thesis by blast
    next
      case False
      with Some show ?thesis by (simp add: PutProgress put_progress_def)
    qed
  qed
next
  case (PostReview u i r rv t1 t2 ok)
  show ?thesis
  proof (cases "findById s i")
    case None
    then show ?thesis by (simp add: PostReview post_review_def)
  next
    case (Some e)
    then have f: "findById s (eid e) = Some e" by (simp add: findById_eid)
    show ?thesis
    proof (cases "student e \<noteq> u \<or> given (rating e)")
      case True
      with Some show ?thesis by (auto simp: PostReview post_review_def)
    next
      case False
      let ?d = "pre_save t2 (e\<lparr>rating := (rating e)\<lparr>given := True, rating_value := Some r,
                   review := rv, reviewedAt := Some t1\<rparr>\<rparr>)"
      from False have "doc_step e ?d"
        by (intro step_review) simp
      moreover from False have "snd (handle q s) = update_doc ?d s"
        by (simp add: PostReview post_review_def Some Let_def case_prod_beta)
      ultimately have "findById s (eid e) = Some e \<and> doc_step e ?d \<and>
          enrollments (snd (handle q s)) = enrollments (update_doc ?d s)"
        using f by simp
      then show ?thesis by blast
    qed
  qed
next
  case (PostCertificate u i t1 t2 t3)
  show ?thesis
  proof (cases "findById s i")
    case None
    then show ?thesis by (simp add: PostCertificate post_certificate_def)
  next
    case (Some e)
    then have f: "findById s (eid e) = Some e" by (simp add: findById_eid)
    show ?thesis
    proof (cases "student e = u \<and> thrown (issueCertificate t1 t2 t3 e s) = None")
      case True
      let ?d = "doc (issueCertificate t1 t2 t3 e s)"
      from True have "doc_step e ?d"
        by (intro step_issueCertificate) simp
      moreover from True have "progress e = 100 \<and> \<not> issued (certificate e)"
        by (simp add: thrown_issueCertificate)
      with True have "snd (handle q s) = update_doc ?d s"
        by (simp add: PostCertificate post_certificate_def Some Let_def db_issueCertificate)
      ultimately have "findById s (eid e) = Some e \<and> doc_step e ?d \<and>
          enrollments (snd (handle q s)) = enrollments (update_doc ?d s)"
        using f by simp
      then show ?thesis by blast
    next
      case False
      then have "snd (handle q s) = s"
        by (auto simp: PostCertificate post_certificate_def Some Let_def db_issueCertificate
            thrown_issueCertificate split: option.splits)
      then show ?thesis by simp
    qed
  qed
next
  case (PostRefund u i reason t)
  show ?thesis
  proof (cases "findById s i")
    case None
    then show ?thesis by (simp add: PostRefund post_refund_def)
  next
    case (Some e)
    then have f: "findById s (eid e) = Some e" by (simp add: findById_eid)
    show ?thesis
    proof (cases "student e = u \<and> thrown (requestRefund reason t e s) = None")
      case True
      let ?d = "doc (requestRefund reason t e s)"
      from True have "doc_step e ?d"
        by (intro step_requestRefund) simp
      moreover from True have "\<not> refundRequested e \<and> \<not> 500 < length reason"
        by (simp add: thrown_requestRefund)
      with True have "snd (handle q s) = update_doc ?d s"
        by (simp add: PostRefund post_refund_def Some Let_def db_requestRefund)
      ultimately have "findById s (eid e) = Some e \<and> doc_step e ?d \<and>
          enrollments (snd (handle q s)) = enrollments (update_doc ?d s)"
        using f by simp
      then show ?thesis by blast
    next
      case False
      then have "student e \<noteq> u \<or> refundRequested e \<or> 500 < length reason"
        by (auto simp: thrown_requestRefund)
      then have "snd (handle q s) = s"
        by (auto simp: PostRefund post_refund_def Some Let_def db_requestRefund
            split: option.splits)
      then show ?thesis by simp
    qed
  qed
next
  case (PutRefundStatus i st amt t1 t2)
  show ?thesis
  proof (cases "refund_status_valid st amt")
    case False
    then show ?thesis by (simp add: PutRefundStatus put_refund_status_def)
  next
    case valid: True
    show ?thesis
    proof (cases "findById s i")
      case None
      with valid show ?thesis by (simp add: PutRefundStatus put_refund_status_def)
    next
      case (Some e)
      then have f: "findById s (eid e) = Some e" by (simp add: findById_eid)
      let ?d = "pre_save t2
       ((case amt of None \<Rightarrow> e\<lparr>refundStatus := st\<rparr>
         | Some v \<Rightarrow> if truthy v then e\<lparr>refundStatus := st, refundAmount := Some (number_of v)\<rparr>
                     else e\<lparr>refundStatus := st\<rparr>)\<lparr>refundProcessedAt := Some t1\<rparr>)"
      from valid have "doc_step e ?d"
        by (rule step_refund_status)
      moreover from valid have "snd (handle q s) = update_doc ?d s"
        by (simp add: PutRefundStatus put_refund_status_def Some Let_def case_prod_beta
            split: option.splits)
      ultimately have "findById s (eid e) = Some e \<and> doc_step e ?d \<and>
          enrollments (snd (handle q s)) = enrollments (update_doc ?d s)"
        using f by simp
      then show ?thesis by blast
    qed
  qed
qed


lemma set_update_doc: "set (enrollments (update_doc d s)) \<subseteq> insert d (set (enrollments s))"
  by (auto simp: update_doc_def)

lemma handle_all_docs:
  assumes step: "\<And>e d. P e \<Longrightarrow> doc_step e d \<Longrightarrow> P d"
    and new: "\<And>i st c ins pay t1 t2. P (new_Enrollment i st c ins pay t1 t2)"
    and all: "\<forall>e \<in> set (enrollments s). P e"
  shows "\<forall>e \<in> set (enrollments (snd (handle q s))). P e"
proof -
  consider (same) "enrollments (snd (handle q s)) = enrollments s"
    | (upd) e d where "findById s (eid e) = Some e" "doc_step e d"
        "enrollments (snd (handle q s)) = enrollments (update_doc d s)"
    | (ins) st c ins pay t1 t2 i where
        "enrollments (snd (handle q s)) = enrollments s @ [new_Enrollment i st c ins pay t1 t2]"
    using handle_effect [of q s] by blast
  then show ?thesis
  proof cases
    case same
    with all show ?thesis by simp
  next
    case upd
    from upd(1) have "e \<in> set (enrollments s)" by (rule findById_mem)
    with all have "P e" by blast
    with upd(2) have "P d" by (simp add: step)
    with all set_update_doc [of d s] show ?thesis
      unfolding upd(3) by blast
  next
    case ins
    with all new show ?thesis by simp
  qed
qed

lemma run_all_docs:
  assumes step: "\<And>e d. P e \<Longrightarrow> doc_step e d \<Longrightarrow> P d"
    and new: "\<And>i st c ins pay t1 t2. P (new_Enrollment i st c ins pay t1 t2)"
  shows "\<forall>e \<in> set (enrollments s). P e \<Longrightarrow> \<forall>e \<in> set (enrollments (run qs s)). P e"
proof (induction qs arbitrary: s)
  case Nil
  then show ?case by simp
next
  case (Cons q qs)
  from step new Cons.prems have "\<forall>e \<in> set (enrollments (snd (handle q s))). P e"
    by (rule handle_all_docs)
  then show ?case by (simp add: Cons.IH)
qed

lemma find_append_Some: "find P xs = Some x \<Longrightarrow> find P (xs @ ys) = Some x"
  by (induction xs) (auto split: if_splits)

lemma findById_append_fresh:
  "findById s i = Some e \<Longrightarrow> find (\<lambda>x. eid x = i) (enrollments s @ [d]) = Some e"
  by (simp add: findById_def find_append_Some)

lemma handle_per_id:
  assumes step: "\<And>e d. Q e \<Longrightarrow> doc_step e d \<Longrightarrow> Q d"
    and found: "findById s i = Some e" and q: "Q e"
  shows "\<exists>e'. findById (snd (handle r s)) i = Some e' \<and> Q e'"
proof -
  consider (same) "enrollments (snd (handle r s)) = enrollments s"
    | (upd) e0 d where "findById s (eid e0) = Some e0" "doc_step e0 d"
        "enrollments (snd (handle r s)) = enrollments (update_doc d s)"
    | (ins) st c ins pay t1 t2 j where "findById s j = None"
        "enrollments (snd (handle r s)) = enrollments s @ [new_Enrollment j st c ins pay t1 t2]"
    using handle_effect [of r s] by blast
  then show ?thesis
  proof cases
    case same
    with found q show ?thesis by (auto simp: findById_def)
  next
    case upd
    have look: "findById (snd (handle r s)) i = findById (update_doc d s) i"
      by (simp add: findById_def upd(3))
    show ?thesis
    proof (cases "eid d = i")
      case True
      with upd(2) have "eid e0 = i" by (simp add: doc_step_eid)
      with upd(1) found have "e0 = e" by simp
      with q upd(2) have "Q d" by (simp add: step)
      moreover from True found have "findById (update_doc d s) i = Some d"
        by (simp add: findById_update_doc)
      ultimately show ?thesis using look by simp
    next
      case False
      then have "findById (update_doc d s) i = Some e"
        using found by (simp add: findById_update_doc)
      with look q show ?thesis by simp
    qed
  next
    case ins
    from found have "find (\<lambda>x. eid x = i) (enrollments s @ [new_Enrollment j st c ins pay t1 t2]) = Some e"
      by (rule findById_append_fresh)
    then have "findById (snd (handle r s)) i = Some e"
      by (simp add: findById_def ins(2))
    with q show ?thesis by simp
  qed
qed

lemma run_per_id:
  assumes step: "\<And>e d. Q e \<Longrightarrow> doc_step e d \<Longrightarrow> Q d"
  shows "findById s i = Some e \<Longrightarrow> Q e \<Longrightarrow> \<exists>e'. findById (run rs s) i = Some e' \<and> Q e'"
proof (induction rs arbitrary: s e)
  case Nil
  then show ?case by simp
next
  case (Cons r rs)
  from step Cons.prems obtain e1 where "findById (snd (handle r s)) i = Some e1" "Q e1"
    using handle_per_id [of Q s i e r] by blast
  then show ?case using Cons.IH by simp
qed


subsection \<open>Certificates\<close>

lemma make_downloadUrl_inj: "make_downloadUrl c = make_downloadUrl c' \<Longrightarrow> c = c'"
  by (simp add: make_downloadUrl_def)

lemma issueCertificate_fails:
  "\<not> (progress e = 100 \<and> \<not> issued (certificate e)) \<Longrightarrow>
   issueCertificate t1 t2 t3 e s =
     \<lparr>thrown = Some (Error ''Cannot issue certificate: course not completed or already issued''),
      doc = e, db = s\<rparr>"
  by (auto simp: issueCertificate_def)

subsection \<open>Consistency is kept by every step\<close>

lemma completion_consistent_new:
  "completion_consistent (new_Enrollment i st c ins pay t1 t2)"
  by (simp add: completion_consistent_def new_Enrollment_def)

lemma completion_consistent_pre_save:
  "completion_consistent e \<Longrightarrow> pre_save t e = e"
  by (auto simp: completion_consistent_def pre_save_def)

lemma completion_consistent_completeLecture:
  assumes "completion_consistent e"
  shows "completion_consistent (doc (completeLecture l ts t1 t2 t3 e s))"
proof (cases "l \<in> lecture ` set (completedLectures e)")
  case True
  then have "completedLectures e \<noteq> []" by auto
  then have "updateProgress e = e"
    using assms by (simp add: updateProgress_def completion_consistent_def)
  moreover have "completion_consistent (e\<lparr>lastAccessed := t2\<rparr>)"
    using assms by (simp add: completion_consistent_def)
  ultimately show ?thesis
    using True by (simp add: doc_completeLecture completion_consistent_pre_save)
next
  case False
  let ?e1 = "e\<lparr>completedLectures := completedLectures e @
               [\<lparr>lecture = castObjectId l, completedAt = t1, timeSpent = ts\<rparr>]\<rparr>"
  let ?e3 = "(updateProgress ?e1)\<lparr>lastAccessed := t2\<rparr>"
  have d: "doc (completeLecture l ts t1 t2 t3 e s) = pre_save t3 ?e3"
    using False by (simp add: doc_completeLecture)
  have p: "progress ?e3 = min 100 (int (length (completedLectures e)) * 10 + 10)"
    by (simp add: updateProgress_def algebra_simps)
  have keep: "status ?e3 = status e" "completionDate ?e3 = completionDate e"
    "length (completedLectures ?e3) = length (completedLectures e) + 1"
    by (simp_all add: updateProgress_def)
  show ?thesis
  proof (cases "progress ?e3 = 100")
    case True
    with assms p keep show ?thesis
      unfolding d by (auto simp: completion_consistent_def pre_save_def)
  next
    case False
    with p have "progress e \<noteq> 100"
      using assms by (auto simp: completion_consistent_def)
    with False assms p keep show ?thesis
      unfolding d by (auto simp: completion_consistent_def pre_save_def)
  qed
qed

lemma completion_consistent_saved:
  assumes "completion_consistent e"
    and "progress e' = progress e" and "completedLectures e' = completedLectures e"
    and "status e' = status e" and "completionDate e' = completionDate e"
  shows "completion_consistent (pre_save t e')"
proof -
  from assms have c: "completion_consistent e'"
    by (simp add: completion_consistent_def)
  then show ?thesis by (simp add: completion_consistent_pre_save)
qed

lemma completion_consistent_step:
  assumes "doc_step e d" and "completion_consistent e"
  shows "completion_consistent d"
  using assms
proof (cases rule: doc_step.cases)
  case (step_completeLecture l ts tPush tAccess tSave s)
  with assms(2) show ?thesis by (simp add: completion_consistent_completeLecture)
next
  case (step_issueCertificate tIssued tId tSave s)
  then have "progress e = 100 \<and> \<not> issued (certificate e)"
    by (simp add: thrown_issueCertificate)
  with step_issueCertificate(1) assms(2) show ?thesis
    by (simp add: doc_issueCertificate completion_consistent_saved)
next
  case (step_requestRefund reason tSave s)
  then have "\<not> refundRequested e \<and> \<not> 500 < length reason"
    by (simp add: thrown_requestRefund)
  with step_requestRefund(1) assms(2) show ?thesis
    by (simp add: doc_requestRefund completion_consistent_saved)
next
  case (step_review tSave r rv tReviewed)
  with assms(2) show ?thesis
    by (simp add: completion_consistent_saved)
next
  case (step_refund_status st amt tSave tProcessed)
  with assms(2) show ?thesis
    by (simp add: completion_consistent_saved split: option.splits)
qed

subsection \<open>Refund requests\<close>

lemma requestRefund_fails:
  "refundRequested e \<Longrightarrow>
   requestRefund reason t e s = \<lparr>thrown = Some (Error ''Refund already requested''), doc = e, db = s\<rparr>"
  by (simp add: requestRefund_def)


lemma post_refund_rejected:
  assumes "findById s i = Some e" and "refundRequested e"
  shows "success (fst (post_refund u i reason t s)) = False \<and> snd (post_refund u i reason t s) = s
    \<and> (student e = u \<longrightarrow>
         post_refund u i reason t s = (reply 500 False ''Refund already requested'' None, s))"
  using assms
  by (simp add: post_refund_def requestRefund_fails Let_def reply_def message_or_def error_message_def)

subsection \<open>Enrolling\<close>

lemma Course_findById_cid: "Course_findById s c = Some cd \<Longrightarrow> cid cd = c"
  by (auto simp: Course_findById_def find_Some_iff)

lemma Course_findById_Course_save:
  assumes "Course_findById s (cid c') \<noteq> None"
  shows "Course_findById (Course_save c' s) (cid c') = Some c'"
proof -
  let ?f = "\<lambda>x. if cid x = cid c' then c' else x"
  have "find (\<lambda>c. cid c = cid c') (map ?f (courses s)) =
      map_option ?f (find (\<lambda>c. cid c = cid c') (courses s))"
    by (rule find_map_same) simp
  then have m: "Course_findById (Course_save c' s) (cid c') = map_option ?f (Course_findById s (cid c'))"
    by (simp add: Course_findById_def Course_save_def)
  from assms obtain x where x: "Course_findById s (cid c') = Some x" by blast
  then have "cid x = cid c'" by (rule Course_findById_cid)
  with m x show ?thesis by simp
qed

lemma find_append_None: "find P xs = None \<Longrightarrow> find P (xs @ ys) = find P ys"
  by (induction xs) (auto split: if_splits)

lemma post_enrollments_created:
  assumes c: "Course_findById s courseId = Some cd" and pub: "course_status cd = ''published''"
    and free: "findOne s userId courseId = None" and fresh: "findById s newId = None"
  shows "post_enrollments userId courseId pm txn newId tPaid tEnrolled tAccessed tSave s =
     (reply 201 True ''Successfully enrolled in course''
        (Some (new_Enrollment newId userId courseId (course_instructor cd)
                 \<lparr>amount = price cd, currency = course_currency cd, pay_method = pm,
                  transactionId = txn, pay_status = PaymentCompleted, paidAt = tPaid\<rparr>
                 tEnrolled tAccessed)),
      Course_save (cd\<lparr>enrollmentCount := enrollmentCount cd + 1\<rparr>)
        (s\<lparr>enrollments := enrollments s @
           [new_Enrollment newId userId courseId (course_instructor cd)
              \<lparr>amount = price cd, currency = course_currency cd, pay_method = pm,
               transactionId = txn, pay_status = PaymentCompleted, paidAt = tPaid\<rparr>
              tEnrolled tAccessed]\<rparr>))"
  using assms
  by (simp add: post_enrollments_def save_new_def insert_doc_def Let_def)

subsection \<open>Reviews\<close>

lemma rating_step:
  assumes "doc_step e d" and "given (rating e)"
  shows "rating d = rating e"
  using assms
proof (cases rule: doc_step.cases)
  case (step_completeLecture l ts tPush tAccess tSave s)
  then show ?thesis by (simp add: doc_completeLecture)
next
  case (step_issueCertificate tIssued tId tSave s)
  then show ?thesis by (simp add: doc_issueCertificate)
next
  case (step_requestRefund reason tSave s)
  then show ?thesis by (simp add: doc_requestRefund)
next
  case (step_review tSave r rv tReviewed)
  with assms(2) show ?thesis by simp
next
  case (step_refund_status st amt tSave tProcessed)
  then show ?thesis by (simp split: option.splits)
qed

lemma post_review_rejected:
  "findById s i = Some e \<Longrightarrow> student e = u \<Longrightarrow> given (rating e) \<Longrightarrow>
   post_review u i r rv tR tS ok s = (reply 400 False ''You have already reviewed this course'' None, s)"
  by (simp add: post_review_def)

lemma post_review_fails:
  "findById s i = Some e \<Longrightarrow> given (rating e) \<Longrightarrow>
   success (fst (post_review u i r rv tR tS ok s)) = False \<and> snd (post_review u i r rv tR tS ok s) = s"
  by (simp add: post_review_def reply_def)

lemma post_review_stores:
  assumes "findById s i = Some e" and "student e = u" and "\<not> given (rating e)"
  shows "snd (post_review u i r rv tR tS ok s) =
     update_doc (pre_save tS (e\<lparr>rating := (rating e)\<lparr>given := True, rating_value := Some r,
                              review := rv, reviewedAt := Some tR\<rparr>\<rparr>)) s"
  using assms by (simp add: post_review_def Let_def case_prod_beta)

subsection \<open>Processing a refund\<close>

lemma accepted_refundStatus_set:
  "st \<in> set accepted_refundStatus \<longleftrightarrow> st = RefundPending \<or> st = RefundApproved \<or> st = RefundRejected"
  by (auto simp: accepted_refundStatus_def)

lemma put_refund_status_result:
  assumes "findById s i = Some e" and "refund_status_valid st amt"
  shows "put_refund_status i st amt tP tS s =
     (reply 200 True ''Refund status updated successfully''
        (Some (pre_save tS
           ((case amt of None \<Rightarrow> e\<lparr>refundStatus := st\<rparr>
             | Some v \<Rightarrow> if truthy v then e\<lparr>refundStatus := st, refundAmount := Some (number_of v)\<rparr>
                         else e\<lparr>refundStatus := st\<rparr>)\<lparr>refundProcessedAt := Some tP\<rparr>))),
      update_doc (pre_save tS
           ((case amt of None \<Rightarrow> e\<lparr>refundStatus := st\<rparr>
             | Some v \<Rightarrow> if truthy v then e\<lparr>refundStatus := st, refundAmount := Some (number_of v)\<rparr>
                         else e\<lparr>refundStatus := st\<rparr>)\<lparr>refundProcessedAt := Some tP\<rparr>)) s)"
  using assms
  by (simp add: put_refund_status_def Let_def case_prod_beta split: option.splits)

subsection \<open>Rejected certificate requests\<close>

lemma post_certificate_rejected:
  assumes "findById s i = Some e" and "\<not> (progress e = 100 \<and> \<not> issued (certificate e))"
  shows "success (fst (post_certificate u i t1 t2 t3 s)) = False \<and>
         snd (post_certificate u i t1 t2 t3 s) = s"
  using assms
  by (simp add: post_certificate_def issueCertificate_fails Let_def reply_def)

subsection \<open>The progress rule is kept by every step\<close>

lemma completedLectures_completeLecture:
  "completedLectures (doc (completeLecture l ts t1 t2 t3 e s)) =
     (if l \<in> lecture ` set (completedLectures e) then completedLectures e
      else completedLectures e @ [\<lparr>lecture = castObjectId l, completedAt = t1, timeSpent = ts\<rparr>])"
  by (simp add: doc_completeLecture)

lemma progress_completeLecture:
  "progress (doc (completeLecture l ts t1 t2 t3 e s)) =
     min 100 (int (length (completedLectures (doc (completeLecture l ts t1 t2 t3 e s)))) * 10)"
  by (auto simp: doc_completeLecture updateProgress_def)

lemma progress_rule_new: "progress_rule (new_Enrollment i st c ins pay t1 t2)"
  by (simp add: progress_rule_def new_Enrollment_def)

lemma progress_rule_step:
  assumes "doc_step e d" and "progress_rule e"
  shows "progress_rule d"
  using assms
proof (cases rule: doc_step.cases)
  case (step_completeLecture l ts tPush tAccess tSave s)
  then show ?thesis by (simp add: progress_rule_def progress_completeLecture)
next
  case (step_issueCertificate tIssued tId tSave s)
  with assms(2) show ?thesis by (simp add: progress_rule_def doc_issueCertificate)
next
  case (step_requestRefund reason tSave s)
  with assms(2) show ?thesis by (simp add: progress_rule_def doc_requestRefund)
next
  case (step_review tSave r rv tReviewed)
  with assms(2) show ?thesis by (simp add: progress_rule_def)
next
  case (step_refund_status st amt tSave tProcessed)
  with assms(2) show ?thesis by (simp add: progress_rule_def split: option.splits)
qed

lemma progress_rule_range: "progress_rule e \<Longrightarrow> 0 \<le> progress e \<and> progress e \<le> 100"
  by (simp add: progress_rule_def)

section \<open>The specified behaviour\<close>

text \<open>
  C1. A save of a document with \<open>progress = 100\<close> and a status other than completed
  sets the status to completed and \<open>completionDate\<close> to the clock reading of that save;
  a save at any other progress leaves both fields alone, and so does a further save at
  progress 100. The saved document is the one stored. For \<open>completeLecture\<close>: the call
  after which progress is 100 completes a document not yet completed, stamping the time of
  its save, and a call after which progress is below 100 changes neither field. Over any
  run of requests every stored document stays consistent: completed exactly at progress
  100, and carrying a completion date exactly then.
\<close>

theorem save_completion_transition:
  "let r = completeLecture lectureId ts tPush tAccess tSave e s
   in (progress e = 100 \<and> status e \<noteq> Completed \<longrightarrow>
         status (fst (save now e s)) = Completed \<and> completionDate (fst (save now e s)) = Some now)
      \<and> (progress e \<noteq> 100 \<longrightarrow>
           status (fst (save now e s)) = status e \<and>
           completionDate (fst (save now e s)) = completionDate e)
      \<and> (progress e = 100 \<longrightarrow>
           status (fst (save now' (fst (save now e s)) s')) = status (fst (save now e s)) \<and>
           completionDate (fst (save now' (fst (save now e s)) s')) =
             completionDate (fst (save now e s)))
      \<and> (findById s (eid e) = Some e \<longrightarrow>
           findById (snd (save now e s)) (eid e) = Some (fst (save now e s)))
      \<and> (progress (doc r) = 100 \<and> status e \<noteq> Completed \<longrightarrow>
           status (doc r) = Completed \<and> completionDate (doc r) = Some tSave)
      \<and> (progress (doc r) \<noteq> 100 \<longrightarrow>
           status (doc r) = status e \<and> completionDate (doc r) = completionDate e)
      \<and> ((\<forall>d \<in> set (enrollments s). completion_consistent d) \<longrightarrow>
           (\<forall>d \<in> set (enrollments (run qs s)). completion_consistent d))"
proof -
  have inv: "(\<forall>d \<in> set (enrollments s). completion_consistent d) \<longrightarrow>
      (\<forall>d \<in> set (enrollments (run qs s)). completion_consistent d)"
    using run_all_docs [of completion_consistent s qs]
      completion_consistent_step completion_consistent_new by blast
  have hook: "(progress e = 100 \<and> status e \<noteq> Completed \<longrightarrow>
         status (pre_save now e) = Completed \<and> completionDate (pre_save now e) = Some now)
      \<and> (progress e \<noteq> 100 \<longrightarrow> pre_save now e = e)
      \<and> (progress e = 100 \<longrightarrow> pre_save now' (pre_save now e) = pre_save now e)"
    by (simp add: pre_save_def)
  have stored: "findById s (eid e) = Some e \<longrightarrow>
      findById (update_doc (pre_save now e) s) (eid e) = Some (pre_save now e)"
    by (simp add: findById_update_doc)
  let ?e3 = "(updateProgress
       (if lectureId \<in> lecture ` set (completedLectures e) then e
        else e\<lparr>completedLectures := completedLectures e @
               [\<lparr>lecture = castObjectId lectureId, completedAt = tPush, timeSpent = ts\<rparr>]\<rparr>))\<lparr>lastAccessed := tAccess\<rparr>"
  have keep: "status ?e3 = status e" "completionDate ?e3 = completionDate e"
    by simp_all
  have call: "(progress (pre_save tSave ?e3) = 100 \<and> status e \<noteq> Completed \<longrightarrow>
         status (pre_save tSave ?e3) = Completed \<and> completionDate (pre_save tSave ?e3) = Some tSave)
      \<and> (progress (pre_save tSave ?e3) \<noteq> 100 \<longrightarrow>
           status (pre_save tSave ?e3) = status e \<and> completionDate (pre_save tSave ?e3) = completionDate e)"
    using keep by (simp add: pre_save_def)
  show ?thesis
    unfolding Let_def doc_completeLecture fst_save snd_save
    using inv hook stored call by simp
qed


theorem save_completion_transition_witness:
  "progress nearly_done_enrollment = 90
   \<and> status nearly_done_enrollment = Active
   \<and> completionDate nearly_done_enrollment = None
   \<and> progress (doc (completeLecture ''64b7f0c2a1d3e4f5a6b7c810'' 45 3000 3001 3002
         nearly_done_enrollment \<lparr>enrollments = [nearly_done_enrollment], courses = []\<rparr>)) = 100
   \<and> status (doc (completeLecture ''64b7f0c2a1d3e4f5a6b7c810'' 45 3000 3001 3002
         nearly_done_enrollment \<lparr>enrollments = [nearly_done_enrollment], courses = []\<rparr>)) = Completed
   \<and> completionDate (doc (completeLecture ''64b7f0c2a1d3e4f5a6b7c810'' 45 3000 3001 3002
         nearly_done_enrollment \<lparr>enrollments = [nearly_done_enrollment], courses = []\<rparr>)) = Some 3002
   \<and> status (doc (completeLecture ''64b7f0c2a1d3e4f5a6b7c803'' 45 3000 3001 3002
         nearly_done_enrollment \<lparr>enrollments = [nearly_done_enrollment], courses = []\<rparr>)) = Active
   \<and> completionDate (doc (completeLecture ''64b7f0c2a1d3e4f5a6b7c803'' 45 3000 3001 3002
         nearly_done_enrollment \<lparr>enrollments = [nearly_done_enrollment], courses = []\<rparr>)) = None
   \<and> status (fst (save 4000 nearly_done_enrollment
         \<lparr>enrollments = [nearly_done_enrollment], courses = []\<rparr>)) = Active
   \<and> completionDate (fst (save 4000 nearly_done_enrollment
         \<lparr>enrollments = [nearly_done_enrollment], courses = []\<rparr>)) = None
   \<and> findById (snd (save 4000 nearly_done_enrollment
         \<lparr>enrollments = [nearly_done_enrollment], courses = []\<rparr>)) ''650000000000000000000e01'' =
       Some (fst (save 4000 nearly_done_enrollment
         \<lparr>enrollments = [nearly_done_enrollment], courses = []\<rparr>))
   \<and> status (fst (save 4000 (sample_enrollment\<lparr>progress := 100\<rparr>) sample_store)) = Completed
   \<and> completionDate (fst (save 4000 (sample_enrollment\<lparr>progress := 100\<rparr>) sample_store)) = Some 4000
   \<and> completionDate (fst (save 5000 (fst (save 4000 (sample_enrollment\<lparr>progress := 100\<rparr>)
         sample_store)) sample_store)) = Some 4000
   \<and> completion_consistent nearly_done_enrollment
   \<and> map_option completion_consistent
        (findById (run [PutProgress ''650000000000000000000a01'' ''650000000000000000000e01''
                          ''64b7f0c2a1d3e4f5a6b7c810'' (Some 45) 3000 3001 3002]
                    \<lparr>enrollments = [nearly_done_enrollment], courses = []\<rparr>)
           ''650000000000000000000e01'') = Some True"
proof -
  let ?s = "\<lparr>enrollments = [nearly_done_enrollment], courses = []\<rparr>"
  let ?q = "PutProgress ''650000000000000000000a01'' ''650000000000000000000e01''
              ''64b7f0c2a1d3e4f5a6b7c810'' (Some 45) 3000 3001 3002"
  let ?r10 = "completeLecture ''64b7f0c2a1d3e4f5a6b7c810'' 45 3000 3001 3002 nearly_done_enrollment ?s"
  let ?r3 = "completeLecture ''64b7f0c2a1d3e4f5a6b7c803'' 45 3000 3001 3002 nearly_done_enrollment ?s"
  have lectures: "map lecture (completedLectures nearly_done_enrollment) =
      [''64b7f0c2a1d3e4f5a6b7c801'', ''64b7f0c2a1d3e4f5a6b7c802'', ''64b7f0c2a1d3e4f5a6b7c803'',
       ''64b7f0c2a1d3e4f5a6b7c804'', ''64b7f0c2a1d3e4f5a6b7c805'', ''64b7f0c2a1d3e4f5a6b7c806'',
       ''64b7f0c2a1d3e4f5a6b7c807'', ''64b7f0c2a1d3e4f5a6b7c808'', ''64b7f0c2a1d3e4f5a6b7c809'']"
    by (simp add: nearly_done_enrollment_def sample_lectures_def show_nat.simps digit_char_def)
  have m: "''64b7f0c2a1d3e4f5a6b7c803'' \<in> lecture ` set (completedLectures nearly_done_enrollment)"
    unfolding set_map [symmetric] lectures by simp
  have n: "''64b7f0c2a1d3e4f5a6b7c810'' \<notin> lecture ` set (completedLectures nearly_done_enrollment)"
    unfolding set_map [symmetric] lectures by simp
  have len: "length (completedLectures nearly_done_enrollment) = 9"
    by (simp add: nearly_done_enrollment_def sample_lectures_def)
  have e: "progress nearly_done_enrollment = 90" "status nearly_done_enrollment = Active"
    "completionDate nearly_done_enrollment = None"
    "student nearly_done_enrollment = ''650000000000000000000a01''"
    "eid nearly_done_enrollment = ''650000000000000000000e01''"
    by (simp_all add: nearly_done_enrollment_def sample_enrollment_def new_Enrollment_def)
  have cc: "completion_consistent nearly_done_enrollment"
    by (simp add: completion_consistent_def e len)
  have p10: "progress (doc ?r10) = 100"
    using n len by (simp add: doc_completeLecture updateProgress_def)
  have p3: "progress (doc ?r3) \<noteq> 100"
    using m len e by (simp add: doc_completeLecture updateProgress_def)
  note a = save_completion_transition [of "''64b7f0c2a1d3e4f5a6b7c810''" 45 3000 3001 3002
      nearly_done_enrollment ?s 4000 5000 ?s "[?q]", unfolded Let_def]
  note b = save_completion_transition [of "''64b7f0c2a1d3e4f5a6b7c803''" 45 3000 3001 3002
      nearly_done_enrollment ?s 4000 5000 ?s "[]", unfolded Let_def]
  note c = save_completion_transition [of "''64b7f0c2a1d3e4f5a6b7c803''" 45 3000 3001 3002
      "sample_enrollment\<lparr>progress := 100\<rparr>" sample_store 4000 5000 sample_store "[]",
      unfolded Let_def]
  from a p10 e have done10: "status (doc ?r10) = Completed" "completionDate (doc ?r10) = Some 3002"
    by simp_all
  from b p3 e have same3: "status (doc ?r3) = Active" "completionDate (doc ?r3) = None"
    by simp_all
  have f0: "findById ?s (eid nearly_done_enrollment) = Some nearly_done_enrollment"
    by (simp add: findById_def)
  from b e f0 have below: "status (fst (save 4000 nearly_done_enrollment ?s)) = Active"
    "completionDate (fst (save 4000 nearly_done_enrollment ?s)) = None"
    "findById (snd (save 4000 nearly_done_enrollment ?s)) ''650000000000000000000e01'' =
       Some (fst (save 4000 nearly_done_enrollment ?s))"
    by simp_all
  have s100: "progress (sample_enrollment\<lparr>progress := 100\<rparr>) = 100"
    "status (sample_enrollment\<lparr>progress := 100\<rparr>) \<noteq> Completed"
    by (simp_all add: sample_enrollment_def new_Enrollment_def)
  from c s100 have first: "status (fst (save 4000 (sample_enrollment\<lparr>progress := 100\<rparr>) sample_store)) = Completed"
    "completionDate (fst (save 4000 (sample_enrollment\<lparr>progress := 100\<rparr>) sample_store)) = Some 4000"
    by blast+
  from c s100 first have second: "completionDate (fst (save 5000 (fst (save 4000
      (sample_enrollment\<lparr>progress := 100\<rparr>) sample_store)) sample_store)) = Some 4000"
    by simp
  have f: "findById ?s ''650000000000000000000e01'' = Some nearly_done_enrollment"
    by (simp add: findById_def e)
  have r: "run [?q] ?s = db ?r10"
    using f e by (simp add: put_progress_def Let_def)
  have found: "findById (db ?r10) ''650000000000000000000e01'' = Some (doc ?r10)"
    using f e by (simp add: db_completeLecture findById_update_doc doc_completeLecture)
  from a cc have "\<forall>d \<in> set (enrollments (run [?q] ?s)). completion_consistent d"
    by simp
  moreover from found have "doc ?r10 \<in> set (enrollments (run [?q] ?s))"
    unfolding r by (rule findById_mem)
  ultimately have cc10: "completion_consistent (doc ?r10)" by blast
  show ?thesis
    unfolding r found using e p10 done10 same3 below first second cc cc10 by simp
qed

text \<open>
  C2. \<open>issueCertificate\<close> returns normally exactly when \<open>progress = 100\<close> and no
  certificate has been issued. It then marks the certificate issued, stamps \<open>issuedAt\<close>,
  and stores the identifier \<open>CERT-<_id>-<clock>\<close> and the download locator built from it;
  the identifier determines the enrollment id and the clock reading, and the locator
  determines the identifier. Otherwise it throws the one error ``Cannot issue certificate:
  course not completed or already issued'', whichever precondition failed. A call that
  follows a successful one throws that error and leaves certificate and store as they were.
\<close>

theorem issueCertificate_once:
  "let r = issueCertificate tIssued tId tSave e s;
       r2 = issueCertificate tIssued' tId' tSave' (doc r) (db r)
   in ((thrown r = None) = (progress e = 100 \<and> \<not> issued (certificate e)))
      \<and> (thrown r = None \<longrightarrow>
            certificate (doc r) =
              \<lparr>issued = True, issuedAt = Some tIssued,
               certificateId = Some (make_certificateId (eid e) tId),
               downloadUrl = Some (make_downloadUrl (make_certificateId (eid e) tId))\<rparr>)
      \<and> (thrown r = None \<and> findById s (eid e) = Some e \<longrightarrow>
            findById (db r) (eid e) = Some (doc r))
      \<and> (thrown r \<noteq> None \<longrightarrow>
            thrown r = Some (Error (''Cannot issue certificate: '' @
                                    ''course not completed or already issued'')))
      \<and> (thrown r = None \<longrightarrow>
            thrown r2 = Some (Error (''Cannot issue certificate: '' @
                                     ''course not completed or already issued''))
            \<and> certificate (doc r2) = certificate (doc r) \<and> db r2 = db r)
      \<and> (make_certificateId i t = make_certificateId i' t' \<longrightarrow> i = i' \<and> t = t')
      \<and> (make_downloadUrl c = make_downloadUrl c' \<longrightarrow> c = c')"
proof -
  have inj: "make_certificateId i t = make_certificateId i' t' \<longrightarrow> i = i' \<and> t = t'"
    using make_certificateId_inj by blast
  have url: "make_downloadUrl c = make_downloadUrl c' \<longrightarrow> c = c'"
    using make_downloadUrl_inj by blast
  show ?thesis
  proof (cases "progress e = 100 \<and> \<not> issued (certificate e)")
    case True
    let ?d = "doc (issueCertificate tIssued tId tSave e s)"
    from True have d: "?d = pre_save tSave (e\<lparr>certificate := (certificate e)\<lparr>issued := True,
             issuedAt := Some tIssued, certificateId := Some (make_certificateId (eid e) tId),
             downloadUrl := Some (make_downloadUrl (make_certificateId (eid e) tId))\<rparr>\<rparr>)"
      by (simp add: doc_issueCertificate)
    then have "issued (certificate ?d)" by simp
    then have again: "issueCertificate tIssued' tId' tSave' ?d (db (issueCertificate tIssued tId tSave e s)) =
       \<lparr>thrown = Some (Error ''Cannot issue certificate: course not completed or already issued''),
        doc = ?d, db = db (issueCertificate tIssued tId tSave e s)\<rparr>"
      by (intro issueCertificate_fails) simp
    from True have th: "thrown (issueCertificate tIssued tId tSave e s) = None"
      by (simp add: thrown_issueCertificate)
    from True have dbr: "db (issueCertificate tIssued tId tSave e s) = update_doc ?d s"
      by (simp add: db_issueCertificate)
    have eid: "eid ?d = eid e" by (simp add: d)
    have cert: "certificate ?d = \<lparr>issued = True, issuedAt = Some tIssued,
               certificateId = Some (make_certificateId (eid e) tId),
               downloadUrl = Some (make_downloadUrl (make_certificateId (eid e) tId))\<rparr>"
      by (simp add: d)
    have stored: "findById s (eid e) = Some e \<longrightarrow> findById (update_doc ?d s) (eid e) = Some ?d"
      by (simp add: findById_update_doc eid)
    show ?thesis
      unfolding Let_def again
      using True inj url th cert stored by (simp add: dbr)
  next
    case False
    then show ?thesis
      using inj url
      by (simp add: Let_def issueCertificate_fails)
  qed
qed

theorem issueCertificate_once_witness:
  "thrown (issueCertificate 9100 9101 9102 completed_enrollment
       \<lparr>enrollments = [completed_enrollment], courses = []\<rparr>) = None
   \<and> certificate (doc (issueCertificate 9100 9101 9102 completed_enrollment
       \<lparr>enrollments = [completed_enrollment], courses = []\<rparr>)) =
       \<lparr>issued = True, issuedAt = Some 9100,
        certificateId = Some ''CERT-650000000000000000000e01-9101'',
        downloadUrl = Some ''/certificates/CERT-650000000000000000000e01-9101''\<rparr>
   \<and> thrown (issueCertificate 9200 9201 9202
        (doc (issueCertificate 9100 9101 9102 completed_enrollment
               \<lparr>enrollments = [completed_enrollment], courses = []\<rparr>))
        (db (issueCertificate 9100 9101 9102 completed_enrollment
               \<lparr>enrollments = [completed_enrollment], courses = []\<rparr>))) =
       Some (Error ''Cannot issue certificate: course not completed or already issued'')
   \<and> thrown (issueCertificate 9100 9101 9102 sample_enrollment sample_store) =
       Some (Error ''Cannot issue certificate: course not completed or already issued'')
   \<and> make_certificateId ''650000000000000000000e01'' 9101 = ''CERT-650000000000000000000e01-9101''"
  using issueCertificate_once [of 9100 9101 9102 completed_enrollment
      "\<lparr>enrollments = [completed_enrollment], courses = []\<rparr>" 9200 9201 9202
      "''650000000000000000000e01''" 9101 "''650000000000000000000e01''" 9101
      "''CERT-650000000000000000000e01-9101''" "''CERT-650000000000000000000e01-9101''"]
    issueCertificate_once [of 9100 9101 9102 sample_enrollment sample_store 9200 9201 9202
      "''650000000000000000000e01''" 9101 "''650000000000000000000e01''" 9101
      "''CERT-650000000000000000000e01-9101''" "''CERT-650000000000000000000e01-9101''"]
  by (simp add: Let_def completed_enrollment_def sample_enrollment_def sample_store_def
      new_Enrollment_def make_certificateId_def make_downloadUrl_def show_nat.simps digit_char_def
      issueCertificate_def findById_def)

text \<open>
  C3. A call of \<open>completeLecture\<close> on any enrollment leaves the entries it found, with
  one more when no stored id prints as the \<open>lectureId\<close> sent, and sets progress to
  \<open>min(100, count * 10)\<close> of that count, a value between 0 and 100; the document so
  computed is the one stored. Over any run of requests from a store whose documents obey
  the rule \<open>progress = min(100, count(completedLectures) * 10)\<close>, every stored document
  obeys it and has its progress between 0 and 100; a new enrollment obeys it.
\<close>

theorem completeLecture_progress_rule:
  "let r = completeLecture lectureId ts tPush tAccess tSave e s;
       n = length (completedLectures e) +
           (if lectureId \<in> lecture ` set (completedLectures e) then 0 else 1)
   in length (completedLectures (doc r)) = n
      \<and> progress (doc r) = min 100 (int n * 10)
      \<and> 0 \<le> progress (doc r) \<and> progress (doc r) \<le> 100
      \<and> (findById s (eid e) = Some e \<longrightarrow> findById (db r) (eid e) = Some (doc r))
      \<and> ((\<forall>d \<in> set (enrollments s). progress_rule d) \<longrightarrow>
           (\<forall>d \<in> set (enrollments (run qs s)).
              progress_rule d \<and> 0 \<le> progress d \<and> progress d \<le> 100))
      \<and> progress_rule (new_Enrollment newId st c ins pay tEnrolled tAccessed)"
proof -
  let ?r = "completeLecture lectureId ts tPush tAccess tSave e s"
  let ?n = "length (completedLectures e) +
           (if lectureId \<in> lecture ` set (completedLectures e) then 0 else 1)"
  have len: "length (completedLectures (doc ?r)) = ?n"
    by (simp add: completedLectures_completeLecture)
  have prog: "progress (doc ?r) = min 100 (int ?n * 10)"
    using progress_completeLecture [of lectureId ts tPush tAccess tSave e s]
    unfolding len by simp
  have range: "0 \<le> progress (doc ?r) \<and> progress (doc ?r) \<le> 100"
    unfolding prog by simp
  have eid: "eid (doc ?r) = eid e"
    by (simp add: doc_completeLecture)
  have stored: "findById s (eid e) = Some e \<longrightarrow> findById (db ?r) (eid e) = Some (doc ?r)"
    by (simp add: db_completeLecture findById_update_doc eid)
  have inv: "(\<forall>d \<in> set (enrollments s). progress_rule d) \<longrightarrow>
      (\<forall>d \<in> set (enrollments (run qs s)).
         progress_rule d \<and> 0 \<le> progress d \<and> progress d \<le> 100)"
    using run_all_docs [of progress_rule s qs] progress_rule_step progress_rule_new
      progress_rule_range by blast
  have fresh: "progress_rule (new_Enrollment newId st c ins pay tEnrolled tAccessed)"
    by (rule progress_rule_new)
  show ?thesis
    unfolding Let_def using len prog range stored inv fresh by blast
qed

theorem completeLecture_progress_rule_witness:
  "length (completedLectures nearly_done_enrollment) = 9
   \<and> progress nearly_done_enrollment = 90
   \<and> length (completedLectures (doc (completeLecture ''64b7f0c2a1d3e4f5a6b7c810'' 45 3000 3001 3002
         nearly_done_enrollment \<lparr>enrollments = [nearly_done_enrollment], courses = []\<rparr>))) = 10
   \<and> progress (doc (completeLecture ''64b7f0c2a1d3e4f5a6b7c810'' 45 3000 3001 3002
         nearly_done_enrollment \<lparr>enrollments = [nearly_done_enrollment], courses = []\<rparr>)) = 100
   \<and> length (completedLectures (doc (completeLecture ''64b7f0c2a1d3e4f5a6b7c803'' 45 3000 3001 3002
         nearly_done_enrollment \<lparr>enrollments = [nearly_done_enrollment], courses = []\<rparr>))) = 9
   \<and> progress (doc (completeLecture ''64b7f0c2a1d3e4f5a6b7c803'' 45 3000 3001 3002
         nearly_done_enrollment \<lparr>enrollments = [nearly_done_enrollment], courses = []\<rparr>)) = 90
   \<and> length (completedLectures (doc (completeLecture ''64b7f0c2a1d3e4f5a6b7c801'' 30 2000 2001 2002
         sample_enrollment sample_store))) = 1
   \<and> progress (doc (completeLecture ''64b7f0c2a1d3e4f5a6b7c801'' 30 2000 2001 2002
         sample_enrollment sample_store)) = 10
   \<and> map_option progress
        (findById (db (completeLecture ''64b7f0c2a1d3e4f5a6b7c810'' 45 3000 3001 3002
            nearly_done_enrollment \<lparr>enrollments = [nearly_done_enrollment], courses = []\<rparr>))
           ''650000000000000000000e01'') = Some 100
   \<and> progress_rule nearly_done_enrollment
   \<and> map_option progress_rule
        (findById (run [PutProgress ''650000000000000000000a01'' ''650000000000000000000e01''
                          ''64b7f0c2a1d3e4f5a6b7c810'' (Some 45) 3000 3001 3002]
                    \<lparr>enrollments = [nearly_done_enrollment], courses = []\<rparr>)
           ''650000000000000000000e01'') = Some True"
proof -
  let ?s = "\<lparr>enrollments = [nearly_done_enrollment], courses = []\<rparr>"
  let ?q = "PutProgress ''650000000000000000000a01'' ''650000000000000000000e01''
              ''64b7f0c2a1d3e4f5a6b7c810'' (Some 45) 3000 3001 3002"
  let ?r10 = "completeLecture ''64b7f0c2a1d3e4f5a6b7c810'' 45 3000 3001 3002 nearly_done_enrollment ?s"
  let ?r3 = "completeLecture ''64b7f0c2a1d3e4f5a6b7c803'' 45 3000 3001 3002 nearly_done_enrollment ?s"
  let ?r1 = "completeLecture ''64b7f0c2a1d3e4f5a6b7c801'' 30 2000 2001 2002 sample_enrollment sample_store"
  have lectures: "map lecture (completedLectures nearly_done_enrollment) =
      [''64b7f0c2a1d3e4f5a6b7c801'', ''64b7f0c2a1d3e4f5a6b7c802'', ''64b7f0c2a1d3e4f5a6b7c803'',
       ''64b7f0c2a1d3e4f5a6b7c804'', ''64b7f0c2a1d3e4f5a6b7c805'', ''64b7f0c2a1d3e4f5a6b7c806'',
       ''64b7f0c2a1d3e4f5a6b7c807'', ''64b7f0c2a1d3e4f5a6b7c808'', ''64b7f0c2a1d3e4f5a6b7c809'']"
    by (simp add: nearly_done_enrollment_def sample_lectures_def show_nat.simps digit_char_def)
  have m: "''64b7f0c2a1d3e4f5a6b7c803'' \<in> lecture ` set (completedLectures nearly_done_enrollment)"
    unfolding set_map [symmetric] lectures by simp
  have n: "''64b7f0c2a1d3e4f5a6b7c810'' \<notin> lecture ` set (completedLectures nearly_done_enrollment)"
    unfolding set_map [symmetric] lectures by simp
  have len: "length (completedLectures nearly_done_enrollment) = 9"
    by (simp add: nearly_done_enrollment_def sample_lectures_def)
  have e: "progress nearly_done_enrollment = 90"
    "student nearly_done_enrollment = ''650000000000000000000a01''"
    "eid nearly_done_enrollment = ''650000000000000000000e01''"
    by (simp_all add: nearly_done_enrollment_def sample_enrollment_def new_Enrollment_def)
  have e0: "completedLectures sample_enrollment = []"
    by (simp add: sample_enrollment_def new_Enrollment_def)
  have rule: "progress_rule nearly_done_enrollment"
    by (simp add: progress_rule_def e len)
  have f: "findById ?s ''650000000000000000000e01'' = Some nearly_done_enrollment"
    by (simp add: findById_def e)
  note a = completeLecture_progress_rule [of "''64b7f0c2a1d3e4f5a6b7c810''" 45 3000 3001 3002
      nearly_done_enrollment ?s "[?q]", unfolded Let_def]
  note b = completeLecture_progress_rule [of "''64b7f0c2a1d3e4f5a6b7c803''" 45 3000 3001 3002
      nearly_done_enrollment ?s "[]", unfolded Let_def]
  note c = completeLecture_progress_rule [of "''64b7f0c2a1d3e4f5a6b7c801''" 30 2000 2001 2002
      sample_enrollment sample_store "[]", unfolded Let_def]
  from a n len have ten: "length (completedLectures (doc ?r10)) = 10" "progress (doc ?r10) = 100"
    by simp_all
  from b m len have nine: "length (completedLectures (doc ?r3)) = 9" "progress (doc ?r3) = 90"
    by simp_all
  from c e0 have one: "length (completedLectures (doc ?r1)) = 1" "progress (doc ?r1) = 10"
    by simp_all
  from a f e have found: "findById (db ?r10) ''650000000000000000000e01'' = Some (doc ?r10)"
    by simp
  have r: "run [?q] ?s = db ?r10"
    using f e by (simp add: put_progress_def Let_def)
  from a rule have "\<forall>d \<in> set (enrollments (run [?q] ?s)). progress_rule d"
    by simp
  moreover from found have "doc ?r10 \<in> set (enrollments (run [?q] ?s))"
    unfolding r by (rule findById_mem)
  ultimately have rule10: "progress_rule (doc ?r10)" by blast
  show ?thesis
    unfolding r found using len e ten nine one rule rule10 by simp
qed




text \<open>
  C5. The enrollment route answers 404 ``Course not found'' when the course is missing,
  400 ``Course is not available for enrollment'' when the course found is not published,
  and 400 ``You are already enrolled in this course'' when the course is published and an
  enrollment of this student in it exists; the checks come in that order, and each leaves
  the store as it was. Otherwise, the new \<open>_id\<close> being fresh, it answers 201 with an
  enrollment that is active, at progress 0, paid (\<open>payment.status = completed\<close>), with the
  instructor of the course; the enrollment is stored and the course's \<open>enrollmentCount\<close>
  has grown by one.
\<close>

theorem post_enrollments_outcomes:
  "let res = post_enrollments userId courseId pm txn newId tPaid tEnrolled tAccessed tSave s
   in (Course_findById s courseId = None \<longrightarrow>
         res = (reply 404 False ''Course not found'' None, s))
      \<and> (Course_findById s courseId = Some cd \<and> course_status cd \<noteq> ''published'' \<longrightarrow>
           res = (reply 400 False ''Course is not available for enrollment'' None, s))
      \<and> (Course_findById s courseId = Some cd \<and> course_status cd = ''published'' \<and>
           findOne s userId courseId \<noteq> None \<longrightarrow>
           res = (reply 400 False ''You are already enrolled in this course'' None, s))
      \<and> (Course_findById s courseId = Some cd \<and> course_status cd = ''published'' \<and>
           findOne s userId courseId = None \<and> findById s newId = None \<longrightarrow>
           (\<exists>e'. fst res = reply 201 True ''Successfully enrolled in course'' (Some e') \<and>
                 eid e' = newId \<and> student e' = userId \<and> course e' = courseId \<and>
                 instructor e' = course_instructor cd \<and> status e' = Active \<and> progress e' = 0 \<and>
                 pay_status (payment e') = PaymentCompleted \<and>
                 enrollments (snd res) = enrollments s @ [e'] \<and>
                 findById (snd res) newId = Some e' \<and>
                 findOne (snd res) userId courseId = Some e' \<and>
                 Course_findById (snd res) courseId =
                   Some (cd\<lparr>enrollmentCount := enrollmentCount cd + 1\<rparr>)))"
proof -
  let ?res = "post_enrollments userId courseId pm txn newId tPaid tEnrolled tAccessed tSave s"
  let ?e = "new_Enrollment newId userId courseId (course_instructor cd)
                 \<lparr>amount = price cd, currency = course_currency cd, pay_method = pm,
                  transactionId = txn, pay_status = PaymentCompleted, paidAt = tPaid\<rparr>
                 tEnrolled tAccessed"
  let ?c' = "cd\<lparr>enrollmentCount := enrollmentCount cd + 1\<rparr>"
  have missing: "Course_findById s courseId = None \<longrightarrow>
      ?res = (reply 404 False ''Course not found'' None, s)"
    by (simp add: post_enrollments_def)
  have unpublished: "Course_findById s courseId = Some cd \<and> course_status cd \<noteq> ''published'' \<longrightarrow>
      ?res = (reply 400 False ''Course is not available for enrollment'' None, s)"
    by (simp add: post_enrollments_def)
  have enrolled: "Course_findById s courseId = Some cd \<and> course_status cd = ''published'' \<and>
      findOne s userId courseId \<noteq> None \<longrightarrow>
      ?res = (reply 400 False ''You are already enrolled in this course'' None, s)"
    by (auto simp: post_enrollments_def)
  have created: "\<exists>e'. fst ?res = reply 201 True ''Successfully enrolled in course'' (Some e') \<and>
                 eid e' = newId \<and> student e' = userId \<and> course e' = courseId \<and>
                 instructor e' = course_instructor cd \<and> status e' = Active \<and> progress e' = 0 \<and>
                 pay_status (payment e') = PaymentCompleted \<and>
                 enrollments (snd ?res) = enrollments s @ [e'] \<and>
                 findById (snd ?res) newId = Some e' \<and>
                 findOne (snd ?res) userId courseId = Some e' \<and>
                 Course_findById (snd ?res) courseId = Some ?c'"
    if c: "Course_findById s courseId = Some cd" and pub: "course_status cd = ''published''"
      and free: "findOne s userId courseId = None" and fresh: "findById s newId = None"
  proof -
    let ?s1 = "s\<lparr>enrollments := enrollments s @ [?e]\<rparr>"
    have res: "?res = (reply 201 True ''Successfully enrolled in course'' (Some ?e), Course_save ?c' ?s1)"
      using c pub free fresh by (rule post_enrollments_created)
    have fields: "eid ?e = newId" "student ?e = userId" "course ?e = courseId"
      "instructor ?e = course_instructor cd" "status ?e = Active" "progress ?e = 0"
      "pay_status (payment ?e) = PaymentCompleted"
      by (simp_all add: new_Enrollment_def)
    have docs: "enrollments (Course_save ?c' ?s1) = enrollments s @ [?e]"
      by simp
    have byId: "findById (Course_save ?c' ?s1) newId = Some ?e"
      using fresh fields(1) by (simp add: findById_def docs find_append_None)
    have one: "findOne (Course_save ?c' ?s1) userId courseId = Some ?e"
      using free fields(2,3) by (simp add: findOne_def docs find_append_None)
    from c have cid: "cid cd = courseId" by (rule Course_findById_cid)
    have "Course_findById ?s1 (cid ?c') \<noteq> None"
      using c cid by (simp add: Course_findById_def)
    then have "Course_findById (Course_save ?c' ?s1) (cid ?c') = Some ?c'"
      by (rule Course_findById_Course_save)
    with cid have course: "Course_findById (Course_save ?c' ?s1) courseId = Some ?c'"
      by simp
    show ?thesis
      unfolding res fst_conv snd_conv
      using fields docs byId one course by blast
  qed
  show ?thesis
    unfolding Let_def using missing unpublished enrolled created by blast
qed


theorem post_enrollments_outcomes_witness:
  "fst (post_enrollments ''650000000000000000000a01'' ''650000000000000000000c09'' Paypal ''txn-2''
        ''650000000000000000000e02'' 7000 7001 7002 7003 catalog_store) =
     reply 404 False ''Course not found'' None
   \<and> fst (post_enrollments ''650000000000000000000a01'' ''650000000000000000000c02'' Paypal ''txn-2''
        ''650000000000000000000e02'' 7000 7001 7002 7003 catalog_store) =
     reply 400 False ''Course is not available for enrollment'' None
   \<and> fst (post_enrollments ''650000000000000000000a01'' ''650000000000000000000c01'' Paypal ''txn-2''
        ''650000000000000000000e02'' 7000 7001 7002 7003 catalog_store) =
     reply 400 False ''You are already enrolled in this course'' None
   \<and> map_option status (data (fst (post_enrollments ''650000000000000000000a02''
        ''650000000000000000000c01'' Paypal ''txn-2'' ''650000000000000000000e02''
        7000 7001 7002 7003 catalog_store))) = Some Active
   \<and> code (fst (post_enrollments ''650000000000000000000a02''
        ''650000000000000000000c01'' Paypal ''txn-2'' ''650000000000000000000e02''
        7000 7001 7002 7003 catalog_store)) = 201
   \<and> map_option enrollmentCount (Course_findById (snd (post_enrollments ''650000000000000000000a02''
        ''650000000000000000000c01'' Paypal ''txn-2'' ''650000000000000000000e02''
        7000 7001 7002 7003 catalog_store)) ''650000000000000000000c01'') = Some 1"
proof -
  have c9: "Course_findById catalog_store ''650000000000000000000c09'' = None"
    by (simp add: Course_findById_def catalog_store_def sample_course_def draft_course_def)
  have c2: "Course_findById catalog_store ''650000000000000000000c02'' = Some draft_course"
    "course_status draft_course \<noteq> ''published''"
    by (simp_all add: Course_findById_def catalog_store_def sample_course_def draft_course_def)
  have c1: "Course_findById catalog_store ''650000000000000000000c01'' = Some sample_course"
    "course_status sample_course = ''published''" "enrollmentCount sample_course = 0"
    by (simp_all add: Course_findById_def catalog_store_def sample_course_def)
  have e1: "findOne catalog_store ''650000000000000000000a01'' ''650000000000000000000c01'' \<noteq> None"
    by (simp add: findOne_def catalog_store_def sample_enrollment_def new_Enrollment_def)
  have e2: "findOne catalog_store ''650000000000000000000a02'' ''650000000000000000000c01'' = None"
    "findById catalog_store ''650000000000000000000e02'' = None"
    by (simp_all add: findOne_def findById_def catalog_store_def sample_enrollment_def new_Enrollment_def)
  note a = post_enrollments_outcomes [of "''650000000000000000000a01''" "''650000000000000000000c09''"
      Paypal "''txn-2''" "''650000000000000000000e02''" 7000 7001 7002 7003 catalog_store sample_course,
      unfolded Let_def]
  note b = post_enrollments_outcomes [of "''650000000000000000000a01''" "''650000000000000000000c02''"
      Paypal "''txn-2''" "''650000000000000000000e02''" 7000 7001 7002 7003 catalog_store draft_course,
      unfolded Let_def]
  note c = post_enrollments_outcomes [of "''650000000000000000000a01''" "''650000000000000000000c01''"
      Paypal "''txn-2''" "''650000000000000000000e02''" 7000 7001 7002 7003 catalog_store sample_course,
      unfolded Let_def]
  note d = post_enrollments_outcomes [of "''650000000000000000000a02''" "''650000000000000000000c01''"
      Paypal "''txn-2''" "''650000000000000000000e02''" 7000 7001 7002 7003 catalog_store sample_course,
      unfolded Let_def]
  from a c9 have r1: "fst (post_enrollments ''650000000000000000000a01'' ''650000000000000000000c09''
      Paypal ''txn-2'' ''650000000000000000000e02'' 7000 7001 7002 7003 catalog_store) =
      reply 404 False ''Course not found'' None"
    by simp
  from b c2 have r2: "fst (post_enrollments ''650000000000000000000a01'' ''650000000000000000000c02''
      Paypal ''txn-2'' ''650000000000000000000e02'' 7000 7001 7002 7003 catalog_store) =
      reply 400 False ''Course is not available for enrollment'' None"
    by simp
  from c c1 e1 have r3: "fst (post_enrollments ''650000000000000000000a01'' ''650000000000000000000c01''
      Paypal ''txn-2'' ''650000000000000000000e02'' 7000 7001 7002 7003 catalog_store) =
      reply 400 False ''You are already enrolled in this course'' None"
    by simp
  from d c1 e2 obtain e' where e': "fst (post_enrollments ''650000000000000000000a02''
      ''650000000000000000000c01'' Paypal ''txn-2'' ''650000000000000000000e02''
      7000 7001 7002 7003 catalog_store) = reply 201 True ''Successfully enrolled in course'' (Some e')"
    "status e' = Active"
    "Course_findById (snd (post_enrollments ''650000000000000000000a02''
      ''650000000000000000000c01'' Paypal ''txn-2'' ''650000000000000000000e02''
      7000 7001 7002 7003 catalog_store)) ''650000000000000000000c01'' =
      Some (sample_course\<lparr>enrollmentCount := enrollmentCount sample_course + 1\<rparr>)"
    by blast
  show ?thesis
    unfolding r1 r2 r3 e' using e'(2) c1(3) by (simp add: reply_def)
qed

text \<open>
  C6. The specification has a lecture appear at most once in \<open>completedLectures\<close>. The
  code does not keep to it. The id \<open>64B7F0C2A1D3E4F5A6B7C801\<close> passes \<open>isMongoId\<close>;
  sent twice for the sample enrollment, it is not found the second time, since the entry
  of the first call prints in lower case, and is pushed again: the stored document holds
  the same lecture twice, with the time of each call, at progress 20. Sent in lower case
  the second time, the same lecture is found and the list stays as it was.
\<close>

theorem completeLecture_repeats_lecture:
  "isMongoId ''64B7F0C2A1D3E4F5A6B7C801''
   \<and> map_option (\<lambda>d. map lecture (completedLectures d))
        (findById
           (run [PutProgress ''650000000000000000000a01'' ''650000000000000000000e01''
                   ''64B7F0C2A1D3E4F5A6B7C801'' (Some 30) 2000 2001 2002,
                 PutProgress ''650000000000000000000a01'' ''650000000000000000000e01''
                   ''64B7F0C2A1D3E4F5A6B7C801'' (Some 45) 3000 3001 3002]
              sample_store)
           ''650000000000000000000e01'') =
       Some [''64b7f0c2a1d3e4f5a6b7c801'', ''64b7f0c2a1d3e4f5a6b7c801'']
   \<and> map_option (\<lambda>d. map timeSpent (completedLectures d))
        (findById
           (run [PutProgress ''650000000000000000000a01'' ''650000000000000000000e01''
                   ''64B7F0C2A1D3E4F5A6B7C801'' (Some 30) 2000 2001 2002,
                 PutProgress ''650000000000000000000a01'' ''650000000000000000000e01''
                   ''64B7F0C2A1D3E4F5A6B7C801'' (Some 45) 3000 3001 3002]
              sample_store)
           ''650000000000000000000e01'') = Some [30, 45]
   \<and> map_option progress
        (findById
           (run [PutProgress ''650000000000000000000a01'' ''650000000000000000000e01''
                   ''64B7F0C2A1D3E4F5A6B7C801'' (Some 30) 2000 2001 2002,
                 PutProgress ''650000000000000000000a01'' ''650000000000000000000e01''
                   ''64B7F0C2A1D3E4F5A6B7C801'' (Some 45) 3000 3001 3002]
              sample_store)
           ''650000000000000000000e01'') = Some 20
   \<and> map_option (\<lambda>d. map lecture (completedLectures d))
        (findById
           (run [PutProgress ''650000000000000000000a01'' ''650000000000000000000e01''
                   ''64B7F0C2A1D3E4F5A6B7C801'' (Some 30) 2000 2001 2002,
                 PutProgress ''650000000000000000000a01'' ''650000000000000000000e01''
                   ''64b7f0c2a1d3e4f5a6b7c801'' (Some 45) 3000 3001 3002]
              sample_store)
           ''650000000000000000000e01'') =
       Some [''64b7f0c2a1d3e4f5a6b7c801'']"
proof -
  let ?U = "''64B7F0C2A1D3E4F5A6B7C801''"
  let ?l = "''64b7f0c2a1d3e4f5a6b7c801''"
  let ?r1 = "completeLecture ?U 30 2000 2001 2002 sample_enrollment sample_store"
  let ?r2 = "completeLecture ?U 45 3000 3001 3002 (doc ?r1) (db ?r1)"
  let ?r3 = "completeLecture ?l 45 3000 3001 3002 (doc ?r1) (db ?r1)"
  have valid: "isMongoId ?U"
    by (simp add: isMongoId_def is_hex_digit_def)
  have cast: "castObjectId ?U = ?l"
    by (simp add: castObjectId_def lower_hex_def)
  have e: "completedLectures sample_enrollment = []"
    "student sample_enrollment = ''650000000000000000000a01''"
    "eid sample_enrollment = ''650000000000000000000e01''"
    by (simp_all add: sample_enrollment_def new_Enrollment_def)
  have f: "findById sample_store ''650000000000000000000e01'' = Some sample_enrollment"
    by (simp add: findById_def sample_store_def e)
  have l1: "completedLectures (doc ?r1) = [\<lparr>lecture = ?l, completedAt = 2000, timeSpent = 30\<rparr>]"
    by (simp add: completedLectures_completeLecture e cast)
  have d1: "eid (doc ?r1) = ''650000000000000000000e01''"
    "student (doc ?r1) = ''650000000000000000000a01''"
    by (simp_all add: doc_completeLecture e updateProgress_def)
  have f1: "findById (db ?r1) ''650000000000000000000e01'' = Some (doc ?r1)"
    using f d1 by (simp add: db_completeLecture findById_update_doc)
  have absent: "?U \<notin> lecture ` set (completedLectures (doc ?r1))"
    unfolding l1 by simp
  have present: "?l \<in> lecture ` set (completedLectures (doc ?r1))"
    unfolding l1 by simp
  have l2: "completedLectures (doc ?r2) =
      [\<lparr>lecture = ?l, completedAt = 2000, timeSpent = 30\<rparr>,
       \<lparr>lecture = ?l, completedAt = 3000, timeSpent = 45\<rparr>]"
    using absent by (simp add: completedLectures_completeLecture [of ?U 45 3000 3001 3002 "doc ?r1"] l1 cast)
  have l3: "completedLectures (doc ?r3) = [\<lparr>lecture = ?l, completedAt = 2000, timeSpent = 30\<rparr>]"
    using present by (simp add: completedLectures_completeLecture [of ?l 45 3000 3001 3002 "doc ?r1"] l1)
  have p2: "progress (doc ?r2) = 20"
    using progress_completeLecture [of ?U 45 3000 3001 3002 "doc ?r1" "db ?r1"]
    unfolding l2 by simp
  have d2: "eid (doc ?r2) = ''650000000000000000000e01''" "eid (doc ?r3) = ''650000000000000000000e01''"
    by (simp_all add: doc_completeLecture [of _ _ _ _ _ "doc ?r1"] d1)
  have f2: "findById (db ?r2) ''650000000000000000000e01'' = Some (doc ?r2)"
    using f1 d2 by (simp add: db_completeLecture [of _ _ _ _ _ "doc ?r1"] findById_update_doc)
  have f3: "findById (db ?r3) ''650000000000000000000e01'' = Some (doc ?r3)"
    using f1 d2 by (simp add: db_completeLecture [of _ _ _ _ _ "doc ?r1"] findById_update_doc)
  have s1: "snd (put_progress ''650000000000000000000a01'' ''650000000000000000000e01'' ?U (Some 30)
      2000 2001 2002 sample_store) = db ?r1"
    using f e by (simp add: put_progress_def Let_def)
  have s2: "snd (put_progress ''650000000000000000000a01'' ''650000000000000000000e01'' ?U (Some 45)
      3000 3001 3002 (db ?r1)) = db ?r2"
    using f1 d1 by (simp add: put_progress_def Let_def)
  have s3: "snd (put_progress ''650000000000000000000a01'' ''650000000000000000000e01'' ?l (Some 45)
      3000 3001 3002 (db ?r1)) = db ?r3"
    using f1 d1 by (simp add: put_progress_def Let_def)
  have run2: "run [PutProgress ''650000000000000000000a01'' ''650000000000000000000e01''
                   ?U (Some 30) 2000 2001 2002,
                 PutProgress ''650000000000000000000a01'' ''650000000000000000000e01''
                   ?U (Some 45) 3000 3001 3002] sample_store = db ?r2"
    by (simp add: s1 s2)
  have run3: "run [PutProgress ''650000000000000000000a01'' ''650000000000000000000e01''
                   ?U (Some 30) 2000 2001 2002,
                 PutProgress ''650000000000000000000a01'' ''650000000000000000000e01''
                   ?l (Some 45) 3000 3001 3002] sample_store = db ?r3"
    by (simp add: s1 s3)
  show ?thesis
    unfolding run2 run3 f2 f3 using valid l2 l3 p2 by simp
qed

text \<open>
  C7. A review by the enrollment's student on an enrollment not yet reviewed stores
  \<open>rating.given = true\<close> with the rating, the review text and the clock reading, whether
  or not the later call to the course's \<open>addReview\<close> returns; a second review after it is
  answered 400 ``You have already reviewed this course'' and changes nothing. Any review
  by the student on a reviewed enrollment gets that answer. Once given, the stored rating
  stays as it is through every run of requests, and every later review request fails.
\<close>

theorem post_review_once:
  "let res = post_review u i r rv tReviewed tSave ok s
   in (findById s i = Some e \<and> student e = u \<and> \<not> given (rating e) \<longrightarrow>
         (\<exists>e'. findById (snd res) i = Some e' \<and>
               rating e' = \<lparr>given = True, rating_value = Some r, review = rv,
                             reviewedAt = Some tReviewed\<rparr>) \<and>
         post_review u i r' rv' tReviewed' tSave' ok' (snd res) =
           (reply 400 False ''You have already reviewed this course'' None, snd res))
      \<and> (findById s i = Some e \<and> student e = u \<and> given (rating e) \<longrightarrow>
           res = (reply 400 False ''You have already reviewed this course'' None, s))
      \<and> (findById s i = Some e \<and> given (rating e) \<longrightarrow>
           (\<exists>e'. findById (run qs s) i = Some e' \<and> rating e' = rating e \<and>
                 success (fst (post_review u i r' rv' tReviewed' tSave' ok' (run qs s))) = False \<and>
                 snd (post_review u i r' rv' tReviewed' tSave' ok' (run qs s)) = run qs s))"
proof -
  let ?res = "post_review u i r rv tReviewed tSave ok s"
  let ?d = "pre_save tSave (e\<lparr>rating := (rating e)\<lparr>given := True, rating_value := Some r,
                              review := rv, reviewedAt := Some tReviewed\<rparr>\<rparr>)"
  have first: "(\<exists>e'. findById (snd ?res) i = Some e' \<and>
               rating e' = \<lparr>given = True, rating_value = Some r, review = rv,
                             reviewedAt = Some tReviewed\<rparr>) \<and>
         post_review u i r' rv' tReviewed' tSave' ok' (snd ?res) =
           (reply 400 False ''You have already reviewed this course'' None, snd ?res)"
    if f: "findById s i = Some e" and st: "student e = u" and g: "\<not> given (rating e)"
  proof -
    from f st g have sres: "snd ?res = update_doc ?d s" by (rule post_review_stores)
    from f have "eid e = i" by (rule findById_eid)
    with f have found: "findById (update_doc ?d s) i = Some ?d"
      by (simp add: findById_update_doc)
    have r: "rating ?d = \<lparr>given = True, rating_value = Some r, review = rv,
                             reviewedAt = Some tReviewed\<rparr>"
      by simp
    have "student ?d = u" "given (rating ?d)" using st by simp_all
    with found have "post_review u i r' rv' tReviewed' tSave' ok' (update_doc ?d s) =
           (reply 400 False ''You have already reviewed this course'' None, update_doc ?d s)"
      by (intro post_review_rejected)
    with found r show ?thesis unfolding sres by blast
  qed
  have second: "findById s i = Some e \<and> student e = u \<and> given (rating e) \<longrightarrow>
           ?res = (reply 400 False ''You have already reviewed this course'' None, s)"
    by (simp add: post_review_rejected)
  have later: "\<exists>e'. findById (run qs s) i = Some e' \<and> rating e' = rating e \<and>
                 success (fst (post_review u i r' rv' tReviewed' tSave' ok' (run qs s))) = False \<and>
                 snd (post_review u i r' rv' tReviewed' tSave' ok' (run qs s)) = run qs s"
    if f: "findById s i = Some e" and g: "given (rating e)"
  proof -
    have step: "\<And>x d. rating x = rating e \<Longrightarrow> doc_step x d \<Longrightarrow> rating d = rating e"
      using g rating_step by fastforce
    from f obtain e' where e': "findById (run qs s) i = Some e'" "rating e' = rating e"
      using run_per_id [of "\<lambda>x. rating x = rating e" s i e qs] step by blast
    with g have "given (rating e')" by simp
    with e' show ?thesis
      using post_review_fails [of "run qs s" i e' u r' rv' tReviewed' tSave' ok'] by blast
  qed
  show ?thesis
    unfolding Let_def using first second later by blast
qed


theorem post_review_once_witness:
  "map_option rating (findById (snd (post_review ''650000000000000000000a01''
        ''650000000000000000000e01'' 5 (Some ''Great course'') 8000 8001 False sample_store))
        ''650000000000000000000e01'') =
     Some \<lparr>given = True, rating_value = Some 5, review = Some ''Great course'',
            reviewedAt = Some 8000\<rparr>
   \<and> post_review ''650000000000000000000a01'' ''650000000000000000000e01'' 1 (Some ''Too slow'')
        9000 9001 True
        (snd (post_review ''650000000000000000000a01'' ''650000000000000000000e01'' 5
               (Some ''Great course'') 8000 8001 False sample_store)) =
     (reply 400 False ''You have already reviewed this course'' None,
      snd (post_review ''650000000000000000000a01'' ''650000000000000000000e01'' 5
             (Some ''Great course'') 8000 8001 False sample_store))
   \<and> map_option rating (findById
        (run [PostReview ''650000000000000000000a01'' ''650000000000000000000e01'' 1
                (Some ''Too slow'') 9000 9001 True,
              PutProgress ''650000000000000000000a01'' ''650000000000000000000e01''
                ''64b7f0c2a1d3e4f5a6b7c801'' None 9100 9101 9102]
          (snd (post_review ''650000000000000000000a01'' ''650000000000000000000e01'' 5
                 (Some ''Great course'') 8000 8001 False sample_store)))
        ''650000000000000000000e01'') =
     Some \<lparr>given = True, rating_value = Some 5, review = Some ''Great course'',
            reviewedAt = Some 8000\<rparr>"
proof -
  let ?s1 = "snd (post_review ''650000000000000000000a01'' ''650000000000000000000e01'' 5
                 (Some ''Great course'') 8000 8001 False sample_store)"
  let ?qs = "[PostReview ''650000000000000000000a01'' ''650000000000000000000e01'' 1
                (Some ''Too slow'') 9000 9001 True,
              PutProgress ''650000000000000000000a01'' ''650000000000000000000e01''
                ''64b7f0c2a1d3e4f5a6b7c801'' None 9100 9101 9102]"
  have f: "findById sample_store ''650000000000000000000e01'' = Some sample_enrollment"
    "student sample_enrollment = ''650000000000000000000a01''"
    "\<not> given (rating sample_enrollment)"
    by (simp_all add: findById_def sample_store_def sample_enrollment_def new_Enrollment_def)
  note a = post_review_once [of "''650000000000000000000a01''" "''650000000000000000000e01''" 5
      "Some ''Great course''" 8000 8001 False sample_store sample_enrollment
      1 "Some ''Too slow''" 9000 9001 True "[]", unfolded Let_def]
  from a f obtain e' where e': "findById ?s1 ''650000000000000000000e01'' = Some e'"
    "rating e' = \<lparr>given = True, rating_value = Some 5, review = Some ''Great course'',
                   reviewedAt = Some 8000\<rparr>"
    and again: "post_review ''650000000000000000000a01'' ''650000000000000000000e01'' 1
        (Some ''Too slow'') 9000 9001 True ?s1 =
      (reply 400 False ''You have already reviewed this course'' None, ?s1)"
    by blast
  note b = post_review_once [of "''650000000000000000000a01''" "''650000000000000000000e01''" 5
      "Some ''Great course''" 8000 8001 False ?s1 e'
      1 "Some ''Too slow''" 9000 9001 True ?qs, unfolded Let_def]
  from e' have "given (rating e')" by simp
  with b e' obtain e'' where e'': "findById (run ?qs ?s1) ''650000000000000000000e01'' = Some e''"
    "rating e'' = rating e'"
    by blast
  show ?thesis
    unfolding e'(1) e''(1) again using e'(2) e''(2) by simp
qed

text \<open>
  C8. For an existing enrollment and a request the validators accept (a status among
  pending, approved and rejected, and an amount that is absent or reads as a number not
  below 0), the refund-status route answers 200, and the stored enrollment then has the
  requested \<open>refundStatus\<close>, whatever the status was before, and \<open>refundProcessedAt\<close>
  set to the clock reading. The amount is recorded when it came as a number other than 0
  or as a string; when none came, or the number 0 came, \<open>refundAmount\<close> is left as it
  was. The route looks at no other field: \<open>refundRequested\<close> is as before.
\<close>

theorem put_refund_status_any_transition:
  "let res = put_refund_status i st amt tProcessed tSave s
   in (findById s i = Some e \<and> refund_status_valid st amt \<longrightarrow>
         (\<exists>e'. res = (reply 200 True ''Refund status updated successfully'' (Some e'),
                       update_doc e' s) \<and>
               findById (snd res) i = Some e' \<and>
               refundStatus e' = st \<and>
               refundProcessedAt e' = Some tProcessed \<and>
               refundAmount e' =
                 (case amt of None \<Rightarrow> refundAmount e
                  | Some (AsNumber a) \<Rightarrow> if a \<noteq> 0 then Some a else refundAmount e
                  | Some (AsString a) \<Rightarrow> Some a) \<and>
               refundRequested e' = refundRequested e))
      \<and> (refund_status_valid st amt =
           ((st = RefundPending \<or> st = RefundApproved \<or> st = RefundRejected) \<and>
            (\<forall>a. amt = Some (AsNumber a) \<or> amt = Some (AsString a) \<longrightarrow> 0 \<le> a)))"
proof -
  let ?d = "pre_save tSave
           ((case amt of None \<Rightarrow> e\<lparr>refundStatus := st\<rparr>
             | Some v \<Rightarrow> if truthy v then e\<lparr>refundStatus := st, refundAmount := Some (number_of v)\<rparr>
                         else e\<lparr>refundStatus := st\<rparr>)\<lparr>refundProcessedAt := Some tProcessed\<rparr>)"
  have valid: "refund_status_valid st amt =
           ((st = RefundPending \<or> st = RefundApproved \<or> st = RefundRejected) \<and>
            (\<forall>a. amt = Some (AsNumber a) \<or> amt = Some (AsString a) \<longrightarrow> 0 \<le> a))"
    by (auto simp: refund_status_valid_def accepted_refundStatus_set number_of_def
        split: option.splits body_number.splits)
  have upd: "\<exists>e'. put_refund_status i st amt tProcessed tSave s =
                   (reply 200 True ''Refund status updated successfully'' (Some e'), update_doc e' s) \<and>
               findById (snd (put_refund_status i st amt tProcessed tSave s)) i = Some e' \<and>
               refundStatus e' = st \<and>
               refundProcessedAt e' = Some tProcessed \<and>
               refundAmount e' =
                 (case amt of None \<Rightarrow> refundAmount e
                  | Some (AsNumber a) \<Rightarrow> if a \<noteq> 0 then Some a else refundAmount e
                  | Some (AsString a) \<Rightarrow> Some a) \<and>
               refundRequested e' = refundRequested e"
    if f: "findById s i = Some e" and v: "refund_status_valid st amt"
  proof -
    from f v have res: "put_refund_status i st amt tProcessed tSave s =
        (reply 200 True ''Refund status updated successfully'' (Some ?d), update_doc ?d s)"
      by (rule put_refund_status_result)
    from f have "eid e = i" by (rule findById_eid)
    then have "eid ?d = i" by (simp split: option.splits)
    with f have found: "findById (update_doc ?d s) i = Some ?d"
      by (simp add: findById_update_doc)
    have fields: "refundStatus ?d = st" "refundProcessedAt ?d = Some tProcessed"
      "refundAmount ?d = (case amt of None \<Rightarrow> refundAmount e
                  | Some (AsNumber a) \<Rightarrow> if a \<noteq> 0 then Some a else refundAmount e
                  | Some (AsString a) \<Rightarrow> Some a)"
      "refundRequested ?d = refundRequested e"
      by (simp_all add: truthy_def number_of_def split: option.splits body_number.splits)
    show ?thesis
      unfolding res snd_conv using found fields by blast
  qed
  show ?thesis
    unfolding Let_def using valid upd by blast
qed

theorem put_refund_status_any_transition_witness:
  "refundStatus sample_enrollment = RefundNone
   \<and> map_option refundStatus (findById (snd (put_refund_status ''650000000000000000000e01''
        RefundApproved (Some (AsNumber (4999 / 100))) 7000 7001 sample_store))
        ''650000000000000000000e01'') = Some RefundApproved
   \<and> map_option refundAmount (findById (snd (put_refund_status ''650000000000000000000e01''
        RefundApproved (Some (AsNumber (4999 / 100))) 7000 7001 sample_store))
        ''650000000000000000000e01'') = Some (Some (4999 / 100))
   \<and> map_option refundProcessedAt (findById (snd (put_refund_status ''650000000000000000000e01''
        RefundApproved (Some (AsNumber (4999 / 100))) 7000 7001 sample_store))
        ''650000000000000000000e01'') = Some (Some 7000)
   \<and> map_option refundStatus (findById (snd (put_refund_status ''650000000000000000000e01''
        RefundPending (Some (AsNumber 0)) 7100 7101
        (snd (put_refund_status ''650000000000000000000e01''
          RefundApproved (Some (AsNumber (4999 / 100))) 7000 7001 sample_store))))
        ''650000000000000000000e01'') = Some RefundPending
   \<and> map_option refundAmount (findById (snd (put_refund_status ''650000000000000000000e01''
        RefundPending (Some (AsNumber 0)) 7100 7101
        (snd (put_refund_status ''650000000000000000000e01''
          RefundApproved (Some (AsNumber (4999 / 100))) 7000 7001 sample_store))))
        ''650000000000000000000e01'') = Some (Some (4999 / 100))
   \<and> map_option refundStatus (findById (snd (put_refund_status ''650000000000000000000e01''
        RefundRejected (Some (AsString 0)) 7100 7101
        (snd (put_refund_status ''650000000000000000000e01''
          RefundApproved (Some (AsNumber (4999 / 100))) 7000 7001 sample_store))))
        ''650000000000000000000e01'') = Some RefundRejected
   \<and> map_option refundAmount (findById (snd (put_refund_status ''650000000000000000000e01''
        RefundRejected (Some (AsString 0)) 7100 7101
        (snd (put_refund_status ''650000000000000000000e01''
          RefundApproved (Some (AsNumber (4999 / 100))) 7000 7001 sample_store))))
        ''650000000000000000000e01'') = Some (Some 0)"
proof -
  let ?s1 = "snd (put_refund_status ''650000000000000000000e01''
          RefundApproved (Some (AsNumber (4999 / 100))) 7000 7001 sample_store)"
  have f: "findById sample_store ''650000000000000000000e01'' = Some sample_enrollment"
    "refundStatus sample_enrollment = RefundNone"
    by (simp_all add: findById_def sample_store_def sample_enrollment_def new_Enrollment_def)
  have v: "refund_status_valid RefundApproved (Some (AsNumber (4999 / 100)))"
    "refund_status_valid RefundPending (Some (AsNumber 0))"
    "refund_status_valid RefundRejected (Some (AsString 0))"
    by (simp_all add: refund_status_valid_def accepted_refundStatus_def number_of_def)
  note a = put_refund_status_any_transition [of "''650000000000000000000e01''" RefundApproved
      "Some (AsNumber (4999 / 100))" 7000 7001 sample_store sample_enrollment, unfolded Let_def]
  from a f v obtain e1 where e1: "findById ?s1 ''650000000000000000000e01'' = Some e1"
    "refundStatus e1 = RefundApproved" "refundProcessedAt e1 = Some 7000"
    "refundAmount e1 = Some (4999 / 100)"
    by auto
  note b = put_refund_status_any_transition [of "''650000000000000000000e01''" RefundPending
      "Some (AsNumber 0)" 7100 7101 ?s1 e1, unfolded Let_def]
  from b e1 v obtain e2 where e2: "findById (snd (put_refund_status ''650000000000000000000e01''
        RefundPending (Some (AsNumber 0)) 7100 7101 ?s1)) ''650000000000000000000e01'' = Some e2"
    "refundStatus e2 = RefundPending" "refundAmount e2 = Some (4999 / 100)"
    by auto
  note c = put_refund_status_any_transition [of "''650000000000000000000e01''" RefundRejected
      "Some (AsString 0)" 7100 7101 ?s1 e1, unfolded Let_def]
  from c e1 v obtain e3 where e3: "findById (snd (put_refund_status ''650000000000000000000e01''
        RefundRejected (Some (AsString 0)) 7100 7101 ?s1)) ''650000000000000000000e01'' = Some e3"
    "refundStatus e3 = RefundRejected" "refundAmount e3 = Some 0"
    by auto
  show ?thesis
    unfolding e1(1) e2(1) e3(1) using f e1 e2 e3 by simp
qed



text \<open>
  C10. A failed precondition changes nothing. When \<open>issueCertificate\<close> throws (progress
  is not 100, or the certificate is issued), and when \<open>requestRefund\<close> throws
  (\<open>refundRequested\<close> is set), the document in memory and the store are as before the
  call; the certificate and refund routes then answer with a failure and leave the store
  as it was. A review request on an enrollment with \<open>rating.given\<close> set is answered with
  a failure and leaves the store as it was.
\<close>

theorem failed_checks_change_nothing:
  "(\<not> (progress e = 100 \<and> \<not> issued (certificate e)) \<longrightarrow>
      thrown (issueCertificate tIssued tId tSave e s) \<noteq> None \<and>
      doc (issueCertificate tIssued tId tSave e s) = e \<and>
      db (issueCertificate tIssued tId tSave e s) = s)
   \<and> (refundRequested e \<longrightarrow>
      thrown (requestRefund reason tSave e s) \<noteq> None \<and>
      doc (requestRefund reason tSave e s) = e \<and>
      db (requestRefund reason tSave e s) = s)
   \<and> (findById s i = Some e \<and> \<not> (progress e = 100 \<and> \<not> issued (certificate e)) \<longrightarrow>
      success (fst (post_certificate u i tIssued tId tSave s)) = False \<and>
      snd (post_certificate u i tIssued tId tSave s) = s)
   \<and> (findById s i = Some e \<and> refundRequested e \<longrightarrow>
      success (fst (post_refund u i reason tSave s)) = False \<and>
      snd (post_refund u i reason tSave s) = s)
   \<and> (findById s i = Some e \<and> given (rating e) \<longrightarrow>
      success (fst (post_review u i r rv tReviewed tSave ok s)) = False \<and>
      snd (post_review u i r rv tReviewed tSave ok s) = s)"
proof -
  have cert: "\<not> (progress e = 100 \<and> \<not> issued (certificate e)) \<longrightarrow>
      thrown (issueCertificate tIssued tId tSave e s) \<noteq> None \<and>
      doc (issueCertificate tIssued tId tSave e s) = e \<and>
      db (issueCertificate tIssued tId tSave e s) = s"
    by (simp add: issueCertificate_fails)
  have refund: "refundRequested e \<longrightarrow>
      thrown (requestRefund reason tSave e s) \<noteq> None \<and>
      doc (requestRefund reason tSave e s) = e \<and>
      db (requestRefund reason tSave e s) = s"
    by (simp add: requestRefund_fails)
  have cert_route: "findById s i = Some e \<and> \<not> (progress e = 100 \<and> \<not> issued (certificate e)) \<longrightarrow>
      success (fst (post_certificate u i tIssued tId tSave s)) = False \<and>
      snd (post_certificate u i tIssued tId tSave s) = s"
    using post_certificate_rejected [of s i e u tIssued tId tSave] by blast
  have refund_route: "findById s i = Some e \<and> refundRequested e \<longrightarrow>
      success (fst (post_refund u i reason tSave s)) = False \<and>
      snd (post_refund u i reason tSave s) = s"
    using post_refund_rejected [of s i e u reason tSave] by blast
  have review_route: "findById s i = Some e \<and> given (rating e) \<longrightarrow>
      success (fst (post_review u i r rv tReviewed tSave ok s)) = False \<and>
      snd (post_review u i r rv tReviewed tSave ok s) = s"
    using post_review_fails [of s i e u r rv tReviewed tSave ok] by blast
  from cert refund cert_route refund_route review_route show ?thesis by blast
qed

theorem failed_checks_change_nothing_witness:
  "progress sample_enrollment = 0
   \<and> doc (issueCertificate 9500 9501 9502 sample_enrollment sample_store) = sample_enrollment
   \<and> db (issueCertificate 9500 9501 9502 sample_enrollment sample_store) = sample_store
   \<and> issued (certificate settled_enrollment)
   \<and> doc (issueCertificate 9500 9501 9502 settled_enrollment settled_store) = settled_enrollment
   \<and> db (issueCertificate 9500 9501 9502 settled_enrollment settled_store) = settled_store
   \<and> refundRequested settled_enrollment
   \<and> doc (requestRefund ''a second, longer reason'' 9600 settled_enrollment settled_store) =
       settled_enrollment
   \<and> db (requestRefund ''a second, longer reason'' 9600 settled_enrollment settled_store) =
       settled_store
   \<and> snd (post_certificate ''650000000000000000000a01'' ''650000000000000000000e01''
          9500 9501 9502 settled_store) = settled_store
   \<and> snd (post_refund ''650000000000000000000a01'' ''650000000000000000000e01''
          ''a second, longer reason'' 9600 settled_store) = settled_store
   \<and> given (rating settled_enrollment)
   \<and> snd (post_review ''650000000000000000000a01'' ''650000000000000000000e01'' 1
          (Some ''Too slow'') 9700 9701 True settled_store) = settled_store"
proof -
  have e0: "progress sample_enrollment = 0"
    by (simp add: sample_enrollment_def new_Enrollment_def)
  have e1: "issued (certificate settled_enrollment)" "refundRequested settled_enrollment"
    "given (rating settled_enrollment)"
    by (simp_all add: settled_enrollment_def)
  have f: "findById settled_store ''650000000000000000000e01'' = Some settled_enrollment"
    by (simp add: findById_def settled_store_def settled_enrollment_def completed_enrollment_def
        sample_enrollment_def new_Enrollment_def)
  note a = failed_checks_change_nothing [of sample_enrollment 9500 9501 9502 sample_store
      "''a second, longer reason''" "''650000000000000000000e01''" "''650000000000000000000a01''"
      1 "Some ''Too slow''" 9700 True]
  note b = failed_checks_change_nothing [of settled_enrollment 9500 9501 9502 settled_store
      "''a second, longer reason''" "''650000000000000000000e01''" "''650000000000000000000a01''"
      1 "Some ''Too slow''" 9700 True]
  note c = failed_checks_change_nothing [of settled_enrollment 9500 9501 9600 settled_store
      "''a second, longer reason''" "''650000000000000000000e01''" "''650000000000000000000a01''"
      1 "Some ''Too slow''" 9700 True]
  note d = failed_checks_change_nothing [of settled_enrollment 9500 9501 9701 settled_store
      "''a second, longer reason''" "''650000000000000000000e01''" "''650000000000000000000a01''"
      1 "Some ''Too slow''" 9700 True]
  from a e0 have r0: "doc (issueCertificate 9500 9501 9502 sample_enrollment sample_store) = sample_enrollment"
    "db (issueCertificate 9500 9501 9502 sample_enrollment sample_store) = sample_store"
    by simp_all
  from b e1 f have r1: "doc (issueCertificate 9500 9501 9502 settled_enrollment settled_store) = settled_enrollment"
    "db (issueCertificate 9500 9501 9502 settled_enrollment settled_store) = settled_store"
    "snd (post_certificate ''650000000000000000000a01'' ''650000000000000000000e01''
          9500 9501 9502 settled_store) = settled_store"
    by simp_all
  from c e1 f have r2: "doc (requestRefund ''a second, longer reason'' 9600 settled_enrollment settled_store) =
       settled_enrollment"
    "db (requestRefund ''a second, longer reason'' 9600 settled_enrollment settled_store) = settled_store"
    "snd (post_refund ''650000000000000000000a01'' ''650000000000000000000e01''
          ''a second, longer reason'' 9600 settled_store) = settled_store"
    by simp_all
  from d e1 f have r3: "snd (post_review ''650000000000000000000a01'' ''650000000000000000000e01'' 1
          (Some ''Too slow'') 9700 9701 True settled_store) = settled_store"
    by simp
  from e0 e1 r0 r1 r2 r3 show ?thesis by simp
qed

end
